theory Spec2Isabelle
  imports Complex_Main "HOL-Library.AList" "HOL-Library.Multiset"
begin

section \<open>Values shared by the collector and the RPC client\<close>

text \<open>
  A Go \<open>float64\<close> is modelled by the real number it denotes. The code below never
  computes with these values: it copies them, converts integers to them, and compares one
  of them with zero. A Go \<open>[]byte\<close> and a Go \<open>string\<close> are both \<open>string\<close>.
\<close>

type_synonym float64 = real
type_synonym bytes = string

definition float64 :: "int \<Rightarrow> float64" where
  "float64 n = of_int n"

text \<open>
  A Go \<open>error\<close> value. The code never inspects one, it only tests it against
  \<open>nil\<close> and hands it on; \<open>None\<close> of type \<open>error option\<close> is \<open>nil\<close>.
\<close>

datatype error = TransportError string | DecodeError string | NumError string

section \<open>Package interfaces: the interface collector\<close>

text \<open>
  Modelled from the spec: the record \<open>interfaces.InterfaceStats\<close>, declared in a file
  of the package other than the collector's. The fields and their types are the ones the
  collector reads and the RPC client writes: a name, description and hardware address, the
  physical flag, the admin, operational and error status booleans, and the byte, error and
  drop counts in both directions.
\<close>

record InterfaceStats =
  Name :: string
  AdminStatus :: bool
  OperStatus :: bool
  ErrorStatus :: bool
  Description :: string
  Mac :: string
  IsPhysical :: bool
  ReceiveBytes :: float64
  ReceiveErrors :: float64
  ReceiveDrops :: float64
  TransmitBytes :: float64
  TransmitErrors :: float64
  TransmitDrops :: float64

text \<open>
  The part of the Prometheus client library the collector uses. A descriptor is its name,
  help text and label names. \<open>MustNewConstMetric\<close> panics (here: \<open>None\<close>) when
  the number of label values differs from the number of label names of the descriptor.
  Label values are taken to be valid text; the library's check of their encoding is left
  out.
\<close>

record Desc =
  fqName :: string
  helpText :: string
  variableLabels :: "string list"

datatype ValueType = CounterValue | GaugeValue | UntypedValue

record Metric =
  metricDesc :: Desc
  metricType :: ValueType
  metricValue :: float64
  metricLabels :: "string list"

definition NewDesc :: "string \<Rightarrow> string \<Rightarrow> string list \<Rightarrow> Desc" where
  "NewDesc n h ls = \<lparr>fqName = n, helpText = h, variableLabels = ls\<rparr>"

definition MustNewConstMetric ::
  "Desc \<Rightarrow> ValueType \<Rightarrow> float64 \<Rightarrow> string list \<Rightarrow> Metric option" where
  "MustNewConstMetric d t v ls =
     (if length ls = length (variableLabels d)
      then Some \<lparr>metricDesc = d, metricType = t, metricValue = v, metricLabels = ls\<rparr>
      else None)"

definition prefix :: string where
  "prefix = ''junos_interface_''"

definition init_l :: "string list" where
  "init_l = [''target'', ''name'', ''description'', ''mac'']"

definition receiveBytesDesc :: Desc where
  "receiveBytesDesc = NewDesc (prefix @ ''receive_bytes'') ''Received data in bytes'' init_l"

definition receiveErrorsDesc :: Desc where
  "receiveErrorsDesc =
     NewDesc (prefix @ ''receive_errors'') ''Number of errors caused by incoming packets'' init_l"

definition receiveDropsDesc :: Desc where
  "receiveDropsDesc =
     NewDesc (prefix @ ''receive_drops'') ''Number of dropped incoming packets'' init_l"

definition transmitBytesDesc :: Desc where
  "transmitBytesDesc = NewDesc (prefix @ ''transmit_bytes'') ''Transmitted data in bytes'' init_l"

definition transmitErrorsDesc :: Desc where
  "transmitErrorsDesc =
     NewDesc (prefix @ ''transmit_errors'') ''Number of errors caused by outgoing packets'' init_l"

definition transmitDropsDesc :: Desc where
  "transmitDropsDesc =
     NewDesc (prefix @ ''transmit_drops'') ''Number of dropped outgoing packets'' init_l"

definition adminStatusDesc :: Desc where
  "adminStatusDesc = NewDesc (prefix @ ''admin_up'') ''Admin operational status'' init_l"

definition operStatusDesc :: Desc where
  "operStatusDesc = NewDesc (prefix @ ''up'') ''Interface operational status'' init_l"

definition errorStatusDesc :: Desc where
  "errorStatusDesc =
     NewDesc (prefix @ ''error_status'') ''Admin and operational status differ'' init_l"

text \<open>
  The channel \<open>ch\<close> the collector sends its samples to: the samples sent so far, and
  whether the collector has panicked. After a panic nothing more is sent. \<open>send d v ls\<close>
  is the statement \<open>ch <- prometheus.MustNewConstMetric(d, prometheus.GaugeValue, v, ls...)\<close>.
\<close>

record chan =
  sent :: "Metric list"
  panicked :: bool

definition send :: "Desc \<Rightarrow> float64 \<Rightarrow> string list \<Rightarrow> chan \<Rightarrow> chan" where
  "send d v ls ch =
     (if panicked ch then ch
      else case MustNewConstMetric d GaugeValue v ls of
             None \<Rightarrow> ch\<lparr>panicked := True\<rparr>
           | Some m \<Rightarrow> ch\<lparr>sent := sent ch @ [m]\<rparr>)"

definition InterfaceCollector_collectForInterface ::
  "InterfaceStats \<Rightarrow> chan \<Rightarrow> string list \<Rightarrow> chan" where
  "InterfaceCollector_collectForInterface s ch labelValues =
     (let l = labelValues @ [Name s, Description s, Mac s];
          ch = send receiveBytesDesc (ReceiveBytes s) l ch;
          ch = send transmitBytesDesc (TransmitBytes s) l ch
      in if IsPhysical s then
           let adminUp = (if AdminStatus s then 1 else 0 :: int);
               operUp = (if OperStatus s then 1 else 0 :: int);
               err = (if ErrorStatus s then 1 else 0 :: int);
               ch = send adminStatusDesc (float64 adminUp) l ch;
               ch = send operStatusDesc (float64 operUp) l ch;
               ch = send errorStatusDesc (float64 err) l ch;
               ch = send transmitErrorsDesc (TransmitErrors s) l ch;
               ch = send transmitDropsDesc (TransmitDrops s) l ch;
               ch = send receiveErrorsDesc (ReceiveErrors s) l ch;
               ch = send receiveDropsDesc (ReceiveDrops s) l ch
           in ch
         else ch)"

text \<open>The loop \<open>for _, s := range stats\<close> of \<open>Collect\<close>.\<close>

fun collectLoop :: "InterfaceStats list \<Rightarrow> chan \<Rightarrow> string list \<Rightarrow> chan" where
  "collectLoop [] ch labelValues = ch"
| "collectLoop (s # stats) ch labelValues =
     collectLoop stats (InterfaceCollector_collectForInterface s ch labelValues) labelValues"

text \<open>
  \<open>Collect\<close> calls the datasource once; the model takes the pair the call returned. A
  \<open>nil\<close> slice is \<open>None\<close> and is ranged over like the empty slice. The result is
  the error \<open>Collect\<close> returns and the channel it leaves.
\<close>

definition InterfaceCollector_Collect ::
  "InterfaceStats list option \<times> error option \<Rightarrow> chan \<Rightarrow> string list \<Rightarrow> error option \<times> chan" where
  "InterfaceCollector_Collect datasource ch labelValues =
     (case datasource of
        (stats, Some err) \<Rightarrow> (Some err, ch)
      | (stats, None) \<Rightarrow>
          (None, collectLoop (case stats of None \<Rightarrow> [] | Some ss \<Rightarrow> ss) ch labelValues))"

section \<open>Package rpc: the domain records it returns\<close>

text \<open>
  Modelled from the spec: the records of the packages alarm, bgp, ospf, isis, route,
  routing_engine, environment and interface_diagnostics, declared in those packages. The
  fields are the ones the RPC client writes, and every numeric field is a \<open>float64\<close> but
  \<open>Asn\<close>, which is copied from the envelope without a conversion.
\<close>

record AlarmCounter =
  RedCount :: float64
  YellowCount :: float64

record BgpSession =
  Ip :: string
  Up :: bool
  Asn :: int
  Flaps :: float64
  InputMessages :: float64
  OutputMessages :: float64
  AcceptedPrefixes :: float64
  ActivePrefixes :: float64
  ReceivedPrefixes :: float64
  RejectedPrefixes :: float64

record OspfArea =
  Name :: string
  Neighbors :: float64

record IsisAdjacencies =
  Up :: float64
  Total :: float64

record ProtocolRouteCount =
  Name :: string
  Routes :: float64
  ActiveRoutes :: float64

record RoutingTable =
  Name :: string
  MaxRoutes :: float64
  ActiveRoutes :: float64
  TotalRoutes :: float64
  Protocols :: "ProtocolRouteCount list"

record RouteEngineStats =
  Temperature :: float64
  MemoryUtilization :: float64
  CPUTemperature :: float64
  CPUUser :: float64
  CPUBackground :: float64
  CPUSystem :: float64
  CPUInterrupt :: float64
  CPUIdle :: float64
  LoadAverageOne :: float64
  LoadAverageFive :: float64
  LoadAverageFifteen :: float64

record EnvironmentItem =
  Name :: string
  Temperature :: float64

record InterfaceDiagnostics =
  Name :: string
  LaserBiasCurrent :: float64
  LaserOutputPower :: float64
  LaserOutputPowerDbm :: float64
  ModuleTemperature :: float64
  ModuleVoltage :: float64
  RxSignalAvgOpticalPower :: float64
  RxSignalAvgOpticalPowerDbm :: float64
  LaserRxOpticalPower :: float64
  LaserRxOpticalPowerDbm :: float64

section \<open>Package rpc: the XML envelopes\<close>

text \<open>
  Modelled from the spec: the envelope types \<open>AlarmRpc\<close>, \<open>InterfaceRpc\<close>,
  \<open>BgpRpc\<close>, \<open>Ospf3Rpc\<close>, \<open>IsisRpc\<close>, \<open>RouteRpc\<close>, \<open>RoutingEngineRpc\<close>,
  \<open>EnvironmentRpc\<close> and \<open>InterfaceDiagnosticsRpc\<close> are declared in other files of
  the package rpc. Each record below has exactly the fields the functions of the client
  read, under the names they read them by. A struct with a
  single field that only wraps another (\<open>x.Information\<close>, \<open>Information.Overview\<close>,
  \<open>Information.RouteEngine\<close>, \<open>Temperature.Value\<close>, \<open>Neighbors.NeighborsUp\<close>)
  is merged into its parent. The list \<open>x.Information.Diagnostics\<close> of the optics reply
  is \<open>DiagInterfaces\<close> here, to keep it apart from the field \<open>Diagnostics\<close> of one
  of its entries. Counters are integers and
  are converted by \<open>float64\<close>; measurements (temperatures, load averages, optical
  powers, currents and voltages) are already \<open>float64\<close>, for which the conversion
  \<open>float64(.)\<close> is the identity. The optional \<open>Temperature\<close> of an environment item
  is a pointer in the source: \<open>None\<close> is \<open>nil\<close>.
\<close>

record AlarmDetails =
  Class :: string
  Description :: string
  Type :: string

record AlarmRpc =
  Details :: "AlarmDetails list"

record TrafficStat =
  InputBytes :: int
  OutputBytes :: int

record ErrorList =
  Drops :: int
  Errors :: int

record LogInterface =
  Name :: string
  Description :: string
  Stats :: TrafficStat

record PhyInterface =
  Name :: string
  AdminStatus :: string
  OperStatus :: string
  Description :: string
  MacAddress :: string
  Stats :: TrafficStat
  LogicalInterfaces :: "LogInterface list"
  InputErrors :: ErrorList
  OutputErrors :: ErrorList

record InterfaceRpc =
  Interfaces :: "PhyInterface list"

record RibStats =
  AcceptedPrefixes :: int
  ActivePrefixes :: int
  ReceivedPrefixes :: int
  RejectedPrefixes :: int

record BgpPeer =
  Ip :: string
  State :: string
  Asn :: int
  Flaps :: int
  InputMessages :: int
  OutputMessages :: int
  Rib :: RibStats

record BgpRpc =
  Peers :: "BgpPeer list"

record Ospf3Area =
  Name :: string
  NeighborsUp :: int

record Ospf3Rpc =
  Areas :: "Ospf3Area list"

record IsisAdjacency =
  AdjacencyState :: string

record IsisRpc =
  Adjacencies :: "IsisAdjacency list"

record RouteTableProtocol =
  Name :: string
  Routes :: int
  ActiveRoutes :: int

record RouteTable =
  Name :: string
  MaxRoutes :: int
  ActiveRoutes :: int
  TotalRoutes :: int
  Protocols :: "RouteTableProtocol list"

record RouteRpc =
  Tables :: "RouteTable list"

record RoutingEngineRpc =
  Temperature :: float64
  MemoryUtilization :: int
  CPUTemperature :: float64
  CPUUser :: int
  CPUBackground :: int
  CPUSystem :: int
  CPUInterrupt :: int
  CPUIdle :: int
  LoadAverageOne :: float64
  LoadAAverageFive :: float64
  LoadAverageFifteen :: float64

record EnvironmentRpcItem =
  Name :: string
  Temperature :: "float64 option"

record EnvironmentRpc =
  Items :: "EnvironmentRpcItem list"

record OpticsDiagnostics =
  NA :: string
  LaserBiasCurrent :: float64
  LaserOutputPower :: float64
  LaserOutputPowerDbm :: string
  ModuleTemperature :: float64
  ModuleVoltage :: float64
  RxSignalAvgOpticalPower :: float64
  RxSignalAvgOpticalPowerDbm :: string
  LaserRxOpticalPower :: float64
  LaserRxOpticalPowerDbm :: string

record PhyDiagInterface =
  Name :: string
  Diagnostics :: OpticsDiagnostics

record InterfaceDiagnosticsRpc =
  DiagInterfaces :: "PhyDiagInterface list"

text \<open>The zero values \<open>AlarmRpc{}\<close>, \<open>InterfaceRpc{}\<close>, ... the functions start from.\<close>

definition AlarmRpc_zero :: AlarmRpc where
  "AlarmRpc_zero = \<lparr>Details = []\<rparr>"

definition InterfaceRpc_zero :: InterfaceRpc where
  "InterfaceRpc_zero = \<lparr>Interfaces = []\<rparr>"

definition BgpRpc_zero :: BgpRpc where
  "BgpRpc_zero = \<lparr>Peers = []\<rparr>"

definition Ospf3Rpc_zero :: Ospf3Rpc where
  "Ospf3Rpc_zero = \<lparr>Areas = []\<rparr>"

definition IsisRpc_zero :: IsisRpc where
  "IsisRpc_zero = \<lparr>Adjacencies = []\<rparr>"

definition RouteRpc_zero :: RouteRpc where
  "RouteRpc_zero = \<lparr>Tables = []\<rparr>"

definition RoutingEngineRpc_zero :: RoutingEngineRpc where
  "RoutingEngineRpc_zero =
     \<lparr>RoutingEngineRpc.Temperature = 0, RoutingEngineRpc.MemoryUtilization = 0,
      RoutingEngineRpc.CPUTemperature = 0, RoutingEngineRpc.CPUUser = 0,
      RoutingEngineRpc.CPUBackground = 0, RoutingEngineRpc.CPUSystem = 0,
      RoutingEngineRpc.CPUInterrupt = 0, RoutingEngineRpc.CPUIdle = 0,
      RoutingEngineRpc.LoadAverageOne = 0, LoadAAverageFive = 0,
      RoutingEngineRpc.LoadAverageFifteen = 0\<rparr>"

definition EnvironmentRpc_zero :: EnvironmentRpc where
  "EnvironmentRpc_zero = \<lparr>Items = []\<rparr>"

definition InterfaceDiagnosticsRpc_zero :: InterfaceDiagnosticsRpc where
  "InterfaceDiagnosticsRpc_zero = \<lparr>DiagInterfaces = []\<rparr>"

section \<open>Package rpc: the client\<close>

text \<open>
  The collaborators of the client, none of them code of this repository:
  \<^item> the SSH connection, by its host name and its method \<open>RunCommand\<close>, which maps the
    command text to the pair (reply bytes, error) it returns;
  \<^item> a compiled regular expression, by its method \<open>MatchString\<close>;
  \<^item> \<open>regexp.MustCompile\<close>, by the function \<open>compile\<close> from a pattern to the compiled
    expression, \<open>None\<close> where the pattern is invalid and \<open>MustCompile\<close> panics;
  \<^item> \<open>xml.Unmarshal(b, obj)\<close>, by a function \<open>xmlUnmarshal\<close> from the bytes and the
    envelope value behind the pointer to the value it leaves there and its error;
  \<^item> \<open>strconv.ParseFloat(s, 64)\<close>, by a function \<open>ParseFloat\<close> from the text to the
    pair (value, error).
  The calls of \<open>log.Printf\<close> under \<open>debug\<close> write to the log only and are left out.
\<close>

type_synonym Regexp = "string \<Rightarrow> bool"

record SshConnection =
  Host :: string
  RunCommand :: "string \<Rightarrow> bytes \<times> error option"

record RpcClient =
  conn :: SshConnection
  debug :: bool
  alarmFilter :: "Regexp option"

definition NewClient ::
  "(string \<Rightarrow> Regexp option) \<Rightarrow> SshConnection \<Rightarrow> bool \<Rightarrow> string \<Rightarrow> RpcClient option" where
  "NewClient compile ssh dbg filterText =
     (let rpc = \<lparr>conn = ssh, debug = dbg, alarmFilter = None\<rparr>
      in if length filterText > 0 then
           (case compile filterText of
              None \<Rightarrow> None
            | Some re \<Rightarrow> Some (rpc\<lparr>alarmFilter := Some re\<rparr>))
         else Some rpc)"

definition runCommandAndParse ::
  "RpcClient \<Rightarrow> (bytes \<Rightarrow> 'o \<Rightarrow> 'o \<times> error option) \<Rightarrow> string \<Rightarrow> 'o \<Rightarrow> 'o \<times> error option" where
  "runCommandAndParse c xmlUnmarshal cmd obj =
     (case RunCommand (conn c) (cmd @ '' | display xml'') of
        (b, Some err) \<Rightarrow> (obj, Some err)
      | (b, None) \<Rightarrow> xmlUnmarshal b obj)"

subsection \<open>Alarms\<close>

definition RpcClient_shouldFilterAlarm :: "RpcClient \<Rightarrow> AlarmDetails \<Rightarrow> bool" where
  "RpcClient_shouldFilterAlarm c alarm =
     (case alarmFilter c of
        None \<Rightarrow> False
      | Some re \<Rightarrow> re (AlarmDetails.Description alarm) \<or> re (Type alarm))"

text \<open>The inner loop \<open>for _, d := range a.Information.Details\<close> over the two tallies.\<close>

fun alarmDetailsLoop :: "RpcClient \<Rightarrow> AlarmDetails list \<Rightarrow> int \<times> int \<Rightarrow> int \<times> int" where
  "alarmDetailsLoop c [] (red, yellow) = (red, yellow)"
| "alarmDetailsLoop c (d # ds) (red, yellow) =
     (if RpcClient_shouldFilterAlarm c d then alarmDetailsLoop c ds (red, yellow)
      else if Class d = ''Major'' then alarmDetailsLoop c ds (red + 1, yellow)
      else if Class d = ''Minor'' then alarmDetailsLoop c ds (red, yellow + 1)
      else alarmDetailsLoop c ds (red, yellow))"

text \<open>The outer loop \<open>for _, cmd := range cmds\<close>, which returns at the first error.\<close>

fun alarmCmdsLoop ::
  "RpcClient \<Rightarrow> (bytes \<Rightarrow> AlarmRpc \<Rightarrow> AlarmRpc \<times> error option) \<Rightarrow> string list \<Rightarrow> int \<times> int
     \<Rightarrow> AlarmCounter option \<times> error option" where
  "alarmCmdsLoop c xmlUnmarshal [] (red, yellow) =
     (Some \<lparr>RedCount = float64 red, YellowCount = float64 yellow\<rparr>, None)"
| "alarmCmdsLoop c xmlUnmarshal (cmd # cmds) (red, yellow) =
     (case runCommandAndParse c xmlUnmarshal cmd AlarmRpc_zero of
        (a, Some err) \<Rightarrow> (None, Some err)
      | (a, None) \<Rightarrow>
          alarmCmdsLoop c xmlUnmarshal cmds (alarmDetailsLoop c (Details a) (red, yellow)))"

definition RpcClient_AlarmCounter ::
  "RpcClient \<Rightarrow> (bytes \<Rightarrow> AlarmRpc \<Rightarrow> AlarmRpc \<times> error option)
     \<Rightarrow> AlarmCounter option \<times> error option" where
  "RpcClient_AlarmCounter c xmlUnmarshal =
     (let red = 0; yellow = 0;
          cmds = [''show system alarms'', ''show chassis alarms'']
      in alarmCmdsLoop c xmlUnmarshal cmds (red, yellow))"

subsection \<open>Interfaces\<close>

text \<open>
  The two composite literals of \<open>InterfaceStats\<close>. A field the literal of the source
  does not name has its zero value.
\<close>

definition physicalStats :: "PhyInterface \<Rightarrow> InterfaceStats" where
  "physicalStats phy =
     \<lparr>InterfaceStats.Name = PhyInterface.Name phy,
      InterfaceStats.AdminStatus = (PhyInterface.AdminStatus phy = ''up''),
      InterfaceStats.OperStatus = (PhyInterface.OperStatus phy = ''up''),
      ErrorStatus = (\<not> (PhyInterface.AdminStatus phy = PhyInterface.OperStatus phy)),
      InterfaceStats.Description = PhyInterface.Description phy,
      Mac = MacAddress phy,
      IsPhysical = True,
      ReceiveBytes = float64 (InputBytes (PhyInterface.Stats phy)),
      ReceiveErrors = float64 (Errors (InputErrors phy)),
      ReceiveDrops = float64 (Drops (InputErrors phy)),
      TransmitBytes = float64 (OutputBytes (PhyInterface.Stats phy)),
      TransmitErrors = float64 (Errors (OutputErrors phy)),
      TransmitDrops = float64 (Drops (OutputErrors phy))\<rparr>"

definition logicalStats :: "PhyInterface \<Rightarrow> LogInterface \<Rightarrow> InterfaceStats" where
  "logicalStats phy lg =
     \<lparr>InterfaceStats.Name = LogInterface.Name lg,
      InterfaceStats.AdminStatus = False,
      InterfaceStats.OperStatus = False,
      ErrorStatus = False,
      InterfaceStats.Description = LogInterface.Description lg,
      Mac = MacAddress phy,
      IsPhysical = False,
      ReceiveBytes = float64 (InputBytes (LogInterface.Stats lg)),
      ReceiveErrors = 0,
      ReceiveDrops = 0,
      TransmitBytes = float64 (OutputBytes (LogInterface.Stats lg)),
      TransmitErrors = 0,
      TransmitDrops = 0\<rparr>"

text \<open>The loop \<open>for _, log := range phy.LogicalInterfaces\<close>, appending to \<open>stats\<close>.\<close>

fun logicalLoop :: "PhyInterface \<Rightarrow> LogInterface list \<Rightarrow> InterfaceStats list \<Rightarrow> InterfaceStats list" where
  "logicalLoop phy [] stats = stats"
| "logicalLoop phy (lg # lgs) stats = logicalLoop phy lgs (stats @ [logicalStats phy lg])"

text \<open>The loop \<open>for _, phy := range x.Information.Interfaces\<close>.\<close>

fun interfacesLoop :: "PhyInterface list \<Rightarrow> InterfaceStats list \<Rightarrow> InterfaceStats list" where
  "interfacesLoop [] stats = stats"
| "interfacesLoop (phy # phys) stats =
     interfacesLoop phys (logicalLoop phy (LogicalInterfaces phy) (stats @ [physicalStats phy]))"

definition RpcClient_InterfaceStats ::
  "RpcClient \<Rightarrow> (bytes \<Rightarrow> InterfaceRpc \<Rightarrow> InterfaceRpc \<times> error option)
     \<Rightarrow> InterfaceStats list option \<times> error option" where
  "RpcClient_InterfaceStats c xmlUnmarshal =
     (case runCommandAndParse c xmlUnmarshal ''show interfaces statistics detail'' InterfaceRpc_zero of
        (x, Some err) \<Rightarrow> (None, Some err)
      | (x, None) \<Rightarrow> (Some (interfacesLoop (Interfaces x) []), None))"

subsection \<open>BGP, OSPF, ISIS\<close>

definition bgpSession :: "BgpPeer \<Rightarrow> BgpSession" where
  "bgpSession peer =
     \<lparr>BgpSession.Ip = BgpPeer.Ip peer,
      BgpSession.Up = (State peer = ''Established''),
      BgpSession.Asn = BgpPeer.Asn peer,
      BgpSession.Flaps = float64 (BgpPeer.Flaps peer),
      BgpSession.InputMessages = float64 (BgpPeer.InputMessages peer),
      BgpSession.OutputMessages = float64 (BgpPeer.OutputMessages peer),
      BgpSession.AcceptedPrefixes = float64 (RibStats.AcceptedPrefixes (Rib peer)),
      BgpSession.ActivePrefixes = float64 (RibStats.ActivePrefixes (Rib peer)),
      BgpSession.ReceivedPrefixes = float64 (RibStats.ReceivedPrefixes (Rib peer)),
      BgpSession.RejectedPrefixes = float64 (RibStats.RejectedPrefixes (Rib peer))\<rparr>"

fun peersLoop :: "BgpPeer list \<Rightarrow> BgpSession list \<Rightarrow> BgpSession list" where
  "peersLoop [] sessions = sessions"
| "peersLoop (peer # peers) sessions = peersLoop peers (sessions @ [bgpSession peer])"

definition RpcClient_BgpSessions ::
  "RpcClient \<Rightarrow> (bytes \<Rightarrow> BgpRpc \<Rightarrow> BgpRpc \<times> error option)
     \<Rightarrow> BgpSession list option \<times> error option" where
  "RpcClient_BgpSessions c xmlUnmarshal =
     (case runCommandAndParse c xmlUnmarshal ''show bgp summary'' BgpRpc_zero of
        (x, Some err) \<Rightarrow> (None, Some err)
      | (x, None) \<Rightarrow> (Some (peersLoop (Peers x) []), None))"

definition ospfArea :: "Ospf3Area \<Rightarrow> OspfArea" where
  "ospfArea area =
     \<lparr>OspfArea.Name = Ospf3Area.Name area, Neighbors = float64 (NeighborsUp area)\<rparr>"

fun areasLoop :: "Ospf3Area list \<Rightarrow> OspfArea list \<Rightarrow> OspfArea list" where
  "areasLoop [] areas = areas"
| "areasLoop (area # rest) areas = areasLoop rest (areas @ [ospfArea area])"

definition RpcClient_OspfAreas ::
  "RpcClient \<Rightarrow> (bytes \<Rightarrow> Ospf3Rpc \<Rightarrow> Ospf3Rpc \<times> error option)
     \<Rightarrow> OspfArea list option \<times> error option" where
  "RpcClient_OspfAreas c xmlUnmarshal =
     (case runCommandAndParse c xmlUnmarshal ''show ospf3 overview'' Ospf3Rpc_zero of
        (x, Some err) \<Rightarrow> (None, Some err)
      | (x, None) \<Rightarrow> (Some (areasLoop (Areas x) []), None))"

text \<open>The loop \<open>for _, adjacency := range x.Information.Adjacencies\<close> over \<open>up\<close> and \<open>total\<close> (here \<open>total'\<close>).\<close>

fun adjacenciesLoop :: "IsisAdjacency list \<Rightarrow> int \<times> int \<Rightarrow> int \<times> int" where
  "adjacenciesLoop [] (up, total') = (up, total')"
| "adjacenciesLoop (adjacency # rest) (up, total') =
     (if AdjacencyState adjacency = ''Up''
      then adjacenciesLoop rest (up + 1, total' + 1)
      else adjacenciesLoop rest (up, total' + 1))"

definition RpcClient_IsisAdjancies ::
  "RpcClient \<Rightarrow> (bytes \<Rightarrow> IsisRpc \<Rightarrow> IsisRpc \<times> error option)
     \<Rightarrow> IsisAdjacencies option \<times> error option" where
  "RpcClient_IsisAdjancies c xmlUnmarshal =
     (let up = 0; total' = 0
      in case runCommandAndParse c xmlUnmarshal ''show isis adjacency'' IsisRpc_zero of
           (x, Some err) \<Rightarrow> (None, Some err)
         | (x, None) \<Rightarrow>
             (case adjacenciesLoop (Adjacencies x) (up, total') of
                (up, total') \<Rightarrow> (Some \<lparr>Up = float64 up, Total = float64 total'\<rparr>, None)))"

subsection \<open>Routing tables and the routing engine\<close>

definition protocolRouteCount :: "RouteTableProtocol \<Rightarrow> ProtocolRouteCount" where
  "protocolRouteCount proto =
     \<lparr>ProtocolRouteCount.Name = RouteTableProtocol.Name proto,
      ProtocolRouteCount.Routes = float64 (RouteTableProtocol.Routes proto),
      ProtocolRouteCount.ActiveRoutes = float64 (RouteTableProtocol.ActiveRoutes proto)\<rparr>"

text \<open>The loop \<open>for _, proto := range table.Protocols\<close>, appending to \<open>t.Protocols\<close>.\<close>

fun protocolsLoop :: "RouteTableProtocol list \<Rightarrow> RoutingTable \<Rightarrow> RoutingTable" where
  "protocolsLoop [] t = t"
| "protocolsLoop (proto # protos) t =
     protocolsLoop protos
       (t\<lparr>RoutingTable.Protocols := RoutingTable.Protocols t @ [protocolRouteCount proto]\<rparr>)"

definition routingTable :: "RouteTable \<Rightarrow> RoutingTable" where
  "routingTable table =
     (let t = \<lparr>RoutingTable.Name = RouteTable.Name table,
               RoutingTable.MaxRoutes = float64 (RouteTable.MaxRoutes table),
               RoutingTable.ActiveRoutes = float64 (RouteTable.ActiveRoutes table),
               RoutingTable.TotalRoutes = float64 (RouteTable.TotalRoutes table),
               RoutingTable.Protocols = []\<rparr>
      in protocolsLoop (RouteTable.Protocols table) t)"

fun tablesLoop :: "RouteTable list \<Rightarrow> RoutingTable list \<Rightarrow> RoutingTable list" where
  "tablesLoop [] tables = tables"
| "tablesLoop (table # rest) tables = tablesLoop rest (tables @ [routingTable table])"

definition RpcClient_RoutingTables ::
  "RpcClient \<Rightarrow> (bytes \<Rightarrow> RouteRpc \<Rightarrow> RouteRpc \<times> error option)
     \<Rightarrow> RoutingTable list option \<times> error option" where
  "RpcClient_RoutingTables c xmlUnmarshal =
     (case runCommandAndParse c xmlUnmarshal ''show route summary'' RouteRpc_zero of
        (x, Some err) \<Rightarrow> (None, Some err)
      | (x, None) \<Rightarrow> (Some (tablesLoop (Tables x) []), None))"

definition RpcClient_RouteEngineStats ::
  "RpcClient \<Rightarrow> (bytes \<Rightarrow> RoutingEngineRpc \<Rightarrow> RoutingEngineRpc \<times> error option)
     \<Rightarrow> RouteEngineStats option \<times> error option" where
  "RpcClient_RouteEngineStats c xmlUnmarshal =
     (case runCommandAndParse c xmlUnmarshal ''show chassis routing-engine'' RoutingEngineRpc_zero of
        (x, Some err) \<Rightarrow> (None, Some err)
      | (x, None) \<Rightarrow>
          (Some \<lparr>RouteEngineStats.Temperature = RoutingEngineRpc.Temperature x,
                 RouteEngineStats.MemoryUtilization = float64 (RoutingEngineRpc.MemoryUtilization x),
                 RouteEngineStats.CPUTemperature = RoutingEngineRpc.CPUTemperature x,
                 RouteEngineStats.CPUUser = float64 (RoutingEngineRpc.CPUUser x),
                 RouteEngineStats.CPUBackground = float64 (RoutingEngineRpc.CPUBackground x),
                 RouteEngineStats.CPUSystem = float64 (RoutingEngineRpc.CPUSystem x),
                 RouteEngineStats.CPUInterrupt = float64 (RoutingEngineRpc.CPUInterrupt x),
                 RouteEngineStats.CPUIdle = float64 (RoutingEngineRpc.CPUIdle x),
                 RouteEngineStats.LoadAverageOne = RoutingEngineRpc.LoadAverageOne x,
                 LoadAverageFive = LoadAAverageFive x,
                 RouteEngineStats.LoadAverageFifteen = RoutingEngineRpc.LoadAverageFifteen x\<rparr>,
           None))"

subsection \<open>Environment\<close>

text \<open>
  The Go map \<open>list\<close> is an association list with at most one pair for a key, assigned
  to by \<open>AList.update\<close>. Go ranges over a map in an order the runtime chooses; the
  parameter \<open>rangeOrder\<close> is that choice, a function that rearranges the pairs of the map.
\<close>

fun itemsLoop :: "EnvironmentRpcItem list \<Rightarrow> (string \<times> float64) list \<Rightarrow> (string \<times> float64) list" where
  "itemsLoop [] list = list"
| "itemsLoop (item # rest) list =
     (case EnvironmentRpcItem.Temperature item of
        Some v \<Rightarrow> itemsLoop rest (AList.update (EnvironmentRpcItem.Name item) v list)
      | None \<Rightarrow> itemsLoop rest list)"

fun mapLoop :: "(string \<times> float64) list \<Rightarrow> EnvironmentItem list \<Rightarrow> EnvironmentItem list" where
  "mapLoop [] items = items"
| "mapLoop ((name, v) # rest) items =
     mapLoop rest (items @ [\<lparr>EnvironmentItem.Name = name, EnvironmentItem.Temperature = v\<rparr>])"

definition RpcClient_EnvironmentItems ::
  "((string \<times> float64) list \<Rightarrow> (string \<times> float64) list) \<Rightarrow> RpcClient
     \<Rightarrow> (bytes \<Rightarrow> EnvironmentRpc \<Rightarrow> EnvironmentRpc \<times> error option)
     \<Rightarrow> EnvironmentItem list option \<times> error option" where
  "RpcClient_EnvironmentItems rangeOrder c xmlUnmarshal =
     (case runCommandAndParse c xmlUnmarshal ''show chassis environment'' EnvironmentRpc_zero of
        (x, Some err) \<Rightarrow> (None, Some err)
      | (x, None) \<Rightarrow>
          (let list = itemsLoop (Items x) []
           in (Some (mapLoop (rangeOrder list) []), None)))"

subsection \<open>Optical diagnostics\<close>

text \<open>The body of the loop for an entry that is not skipped: the record \<open>d\<close> it appends.\<close>

definition diagnosticsRecord ::
  "(string \<Rightarrow> float64 \<times> error option) \<Rightarrow> PhyDiagInterface \<Rightarrow> InterfaceDiagnostics" where
  "diagnosticsRecord ParseFloat diag =
     (let d = \<lparr>InterfaceDiagnostics.Name = PhyDiagInterface.Name diag,
               InterfaceDiagnostics.LaserBiasCurrent =
                 OpticsDiagnostics.LaserBiasCurrent (Diagnostics diag),
               InterfaceDiagnostics.LaserOutputPower =
                 OpticsDiagnostics.LaserOutputPower (Diagnostics diag),
               InterfaceDiagnostics.LaserOutputPowerDbm = 0,
               InterfaceDiagnostics.ModuleTemperature =
                 OpticsDiagnostics.ModuleTemperature (Diagnostics diag),
               InterfaceDiagnostics.ModuleVoltage = 0,
               InterfaceDiagnostics.RxSignalAvgOpticalPower = 0,
               InterfaceDiagnostics.RxSignalAvgOpticalPowerDbm = 0,
               InterfaceDiagnostics.LaserRxOpticalPower = 0,
               InterfaceDiagnostics.LaserRxOpticalPowerDbm = 0\<rparr>;
          (f, err) = ParseFloat (OpticsDiagnostics.LaserOutputPowerDbm (Diagnostics diag));
          d = (if err = None then d\<lparr>InterfaceDiagnostics.LaserOutputPowerDbm := f\<rparr> else d)
      in if OpticsDiagnostics.ModuleVoltage (Diagnostics diag) > 0 then
           (let d = d\<lparr>InterfaceDiagnostics.ModuleVoltage :=
                       OpticsDiagnostics.ModuleVoltage (Diagnostics diag)\<rparr>;
                d = d\<lparr>InterfaceDiagnostics.RxSignalAvgOpticalPower :=
                       OpticsDiagnostics.RxSignalAvgOpticalPower (Diagnostics diag)\<rparr>;
                (f, err) = ParseFloat (OpticsDiagnostics.RxSignalAvgOpticalPowerDbm (Diagnostics diag))
            in if err = None then d\<lparr>InterfaceDiagnostics.RxSignalAvgOpticalPowerDbm := f\<rparr> else d)
         else
           (let d = d\<lparr>InterfaceDiagnostics.LaserRxOpticalPower :=
                       OpticsDiagnostics.LaserRxOpticalPower (Diagnostics diag)\<rparr>;
                (f, err) = ParseFloat (OpticsDiagnostics.LaserRxOpticalPowerDbm (Diagnostics diag))
            in if err = None then d\<lparr>InterfaceDiagnostics.LaserRxOpticalPowerDbm := f\<rparr> else d))"

text \<open>The loop \<open>for _, diag := range x.Information.Diagnostics\<close> with its \<open>continue\<close>.\<close>

fun diagnosticsLoop ::
  "(string \<Rightarrow> float64 \<times> error option) \<Rightarrow> PhyDiagInterface list \<Rightarrow> InterfaceDiagnostics list
     \<Rightarrow> InterfaceDiagnostics list" where
  "diagnosticsLoop ParseFloat [] diagnostics = diagnostics"
| "diagnosticsLoop ParseFloat (diag # rest) diagnostics =
     (if NA (Diagnostics diag) = ''N/A'' then diagnosticsLoop ParseFloat rest diagnostics
      else diagnosticsLoop ParseFloat rest (diagnostics @ [diagnosticsRecord ParseFloat diag]))"

definition RpcClient_InterfaceDiagnostics ::
  "(string \<Rightarrow> float64 \<times> error option) \<Rightarrow> RpcClient
     \<Rightarrow> (bytes \<Rightarrow> InterfaceDiagnosticsRpc \<Rightarrow> InterfaceDiagnosticsRpc \<times> error option)
     \<Rightarrow> InterfaceDiagnostics list option \<times> error option" where
  "RpcClient_InterfaceDiagnostics ParseFloat c xmlUnmarshal =
     (case runCommandAndParse c xmlUnmarshal ''show interfaces diagnostics optics''
             InterfaceDiagnosticsRpc_zero of
        (x, Some err) \<Rightarrow> (None, Some err)
      | (x, None) \<Rightarrow> (Some (diagnosticsLoop ParseFloat (DiagInterfaces x) []), None))"

section \<open>Notions the properties are stated with\<close>

text \<open>The records \<open>InterfaceStats\<close> appends for one physical entry, in their order.\<close>

definition interfaceRecords :: "PhyInterface \<Rightarrow> InterfaceStats list" where
  "interfaceRecords phy = physicalStats phy # map (logicalStats phy) (LogicalInterfaces phy)"

text \<open>A gauge sample, and the samples the collector sends for one record.\<close>

definition gauge :: "Desc \<Rightarrow> float64 \<Rightarrow> string list \<Rightarrow> Metric" where
  "gauge d v ls = \<lparr>metricDesc = d, metricType = GaugeValue, metricValue = v, metricLabels = ls\<rparr>"

definition byteSamples :: "InterfaceStats \<Rightarrow> string list \<Rightarrow> Metric list" where
  "byteSamples s ls =
     [gauge receiveBytesDesc (ReceiveBytes s) ls, gauge transmitBytesDesc (TransmitBytes s) ls]"

definition statusSamples :: "InterfaceStats \<Rightarrow> string list \<Rightarrow> Metric list" where
  "statusSamples s ls =
     [gauge adminStatusDesc (if InterfaceStats.AdminStatus s then 1 else 0) ls,
      gauge operStatusDesc (if InterfaceStats.OperStatus s then 1 else 0) ls,
      gauge errorStatusDesc (if ErrorStatus s then 1 else 0) ls,
      gauge transmitErrorsDesc (TransmitErrors s) ls,
      gauge transmitDropsDesc (TransmitDrops s) ls,
      gauge receiveErrorsDesc (ReceiveErrors s) ls,
      gauge receiveDropsDesc (ReceiveDrops s) ls]"

definition interfaceSamples :: "string list \<Rightarrow> InterfaceStats \<Rightarrow> Metric list" where
  "interfaceSamples labelValues s =
     (let ls = labelValues @ [InterfaceStats.Name s, InterfaceStats.Description s, Mac s]
      in byteSamples s ls @ (if IsPhysical s then statusSamples s ls else []))"

text \<open>The number of alarms of a class among those the filter does not exclude.\<close>

definition counted :: "RpcClient \<Rightarrow> string \<Rightarrow> AlarmDetails list \<Rightarrow> int" where
  "counted c cls ds =
     int (length (filter (\<lambda>d. \<not> RpcClient_shouldFilterAlarm c d \<and> Class d = cls) ds))"

text \<open>The records \<open>InterfaceDiagnostics\<close> appends for one entry: none or one.\<close>

definition diagnosticsRecords ::
  "(string \<Rightarrow> float64 \<times> error option) \<Rightarrow> PhyDiagInterface \<Rightarrow> InterfaceDiagnostics list" where
  "diagnosticsRecords ParseFloat diag =
     (if NA (Diagnostics diag) = ''N/A'' then [] else [diagnosticsRecord ParseFloat diag])"

text \<open>A dBm text parsed, zero where the parse fails.\<close>

definition dbmOrZero :: "(string \<Rightarrow> float64 \<times> error option) \<Rightarrow> string \<Rightarrow> float64" where
  "dbmOrZero ParseFloat s = (case ParseFloat s of (f, None) \<Rightarrow> f | (f, Some e) \<Rightarrow> 0)"

text \<open>The (name, temperature) pairs of the items that have a temperature, in their order.\<close>

fun temperatureReadings :: "EnvironmentRpcItem list \<Rightarrow> (string \<times> float64) list" where
  "temperatureReadings [] = []"
| "temperatureReadings (item # rest) =
     (case EnvironmentRpcItem.Temperature item of
        Some v \<Rightarrow> (EnvironmentRpcItem.Name item, v) # temperatureReadings rest
      | None \<Rightarrow> temperatureReadings rest)"

text \<open>
  The error a command ends with: the one of the channel, else the one of the decoder,
  else none.
\<close>

definition commandError ::
  "RpcClient \<Rightarrow> (bytes \<Rightarrow> 'o \<Rightarrow> 'o \<times> error option) \<Rightarrow> string \<Rightarrow> 'o \<Rightarrow> error option" where
  "commandError c xmlUnmarshal cmd obj = snd (runCommandAndParse c xmlUnmarshal cmd obj)"

text \<open>
  A pattern without metacharacters, compiled: it matches the strings that contain it.
\<close>

fun containsAt :: "string \<Rightarrow> string \<Rightarrow> bool" where
  "containsAt p [] = (p = [])"
| "containsAt p (x # xs) = (take (length p) (x # xs) = p \<or> containsAt p xs)"

definition literalPattern :: "string \<Rightarrow> Regexp" where
  "literalPattern p = containsAt p"

text \<open>The record made from one pair of the map.\<close>

definition environmentItem :: "string \<times> float64 \<Rightarrow> EnvironmentItem" where
  "environmentItem p = \<lparr>EnvironmentItem.Name = fst p, EnvironmentItem.Temperature = snd p\<rparr>"

section \<open>Concrete inputs\<close>

text \<open>
  A connection that answers every command with the command text as its reply bytes, one
  that fails every command, and one that answers the first alarm command only.
\<close>

definition echoConn :: SshConnection where
  "echoConn = \<lparr>Host = ''router1'', RunCommand = (\<lambda>cmd. (cmd, None))\<rparr>"

definition deadConn :: SshConnection where
  "deadConn = \<lparr>Host = ''router1'',
                RunCommand = (\<lambda>cmd. ([], Some (TransportError ''connection refused'')))\<rparr>"

definition halfConn :: SshConnection where
  "halfConn = \<lparr>Host = ''router1'',
                RunCommand = (\<lambda>cmd. if cmd = ''show system alarms | display xml''
                                     then (cmd, None)
                                     else ([], Some (TransportError ''session closed'')))\<rparr>"

definition clientOf :: "SshConnection \<Rightarrow> RpcClient" where
  "clientOf ssh = \<lparr>conn = ssh, debug = False, alarmFilter = None\<rparr>"

text \<open>A decoder that leaves a given envelope, and one that rejects every reply.\<close>

definition replyWith :: "'o \<Rightarrow> bytes \<Rightarrow> 'o \<Rightarrow> 'o \<times> error option" where
  "replyWith x b obj = (x, None)"

definition rejectReply :: "bytes \<Rightarrow> 'o \<Rightarrow> 'o \<times> error option" where
  "rejectReply b obj = (obj, Some (DecodeError ''unexpected EOF''))"

definition noCounters :: ErrorList where
  "noCounters = \<lparr>Drops = 0, Errors = 0\<rparr>"

definition unit0 :: LogInterface where
  "unit0 = \<lparr>LogInterface.Name = ''ge-0/0/0.0'', LogInterface.Description = ''uplink'',
            LogInterface.Stats = \<lparr>InputBytes = 700, OutputBytes = 900\<rparr>\<rparr>"

definition upPhy :: PhyInterface where
  "upPhy = \<lparr>PhyInterface.Name = ''ge-0/0/0'', PhyInterface.AdminStatus = ''up'',
            PhyInterface.OperStatus = ''up'', PhyInterface.Description = ''core'',
            MacAddress = ''00:00:5e:00:53:01'',
            PhyInterface.Stats = \<lparr>InputBytes = 1000, OutputBytes = 2000\<rparr>,
            LogicalInterfaces = [unit0],
            InputErrors = \<lparr>Drops = 1, Errors = 2\<rparr>,
            OutputErrors = \<lparr>Drops = 3, Errors = 4\<rparr>\<rparr>"

definition downTestingPhy :: PhyInterface where
  "downTestingPhy = \<lparr>PhyInterface.Name = ''ge-0/0/1'', PhyInterface.AdminStatus = ''down'',
            PhyInterface.OperStatus = ''testing'', PhyInterface.Description = [],
            MacAddress = ''00:00:5e:00:53:02'',
            PhyInterface.Stats = \<lparr>InputBytes = 0, OutputBytes = 0\<rparr>,
            LogicalInterfaces = [],
            InputErrors = noCounters,
            OutputErrors = noCounters\<rparr>"

text \<open>A channel nothing was sent to.\<close>

definition emptyChan :: chan where
  "emptyChan = \<lparr>sent = [], panicked = False\<rparr>"

text \<open>
  A decoder for the two alarm commands, which tells them apart by the reply bytes of
  \<open>echoConn\<close>; a client whose filter is the pattern "fan"; alarm details; the three
  details of the example.
\<close>

definition alarmReplies :: "AlarmRpc \<Rightarrow> AlarmRpc \<Rightarrow> bytes \<Rightarrow> AlarmRpc \<Rightarrow> AlarmRpc \<times> error option" where
  "alarmReplies sys chassis b obj =
     (if b = ''show system alarms | display xml'' then (sys, None) else (chassis, None))"

definition fanClient :: RpcClient where
  "fanClient = \<lparr>conn = echoConn, debug = False, alarmFilter = Some (literalPattern ''fan'')\<rparr>"

definition alarm :: "string \<Rightarrow> string \<Rightarrow> string \<Rightarrow> AlarmDetails" where
  "alarm cls descr ty = \<lparr>Class = cls, AlarmDetails.Description = descr, Type = ty\<rparr>"

definition fanExample :: AlarmRpc where
  "fanExample = \<lparr>Details = [alarm ''Major'' ''fan failure'' ''Chassis'',
                           alarm ''Minor'' ''psu warn'' ''Chassis'',
                           alarm ''Major'' ''fan failure'' ''Chassis'']\<rparr>"

definition noAlarms :: AlarmRpc where
  "noAlarms = \<lparr>Details = []\<rparr>"

text \<open>The routing table of the example, and three adjacencies.\<close>

definition exampleTable :: RouteTable where
  "exampleTable =
     \<lparr>RouteTable.Name = ''inet.0'', RouteTable.MaxRoutes = 0, RouteTable.ActiveRoutes = 155,
      RouteTable.TotalRoutes = 205,
      RouteTable.Protocols =
        [\<lparr>RouteTableProtocol.Name = ''direct'', RouteTableProtocol.Routes = 5,
          RouteTableProtocol.ActiveRoutes = 5\<rparr>,
         \<lparr>RouteTableProtocol.Name = ''bgp'', RouteTableProtocol.Routes = 200,
          RouteTableProtocol.ActiveRoutes = 150\<rparr>]\<rparr>"

definition exampleAdjacencies :: IsisRpc where
  "exampleAdjacencies =
     \<lparr>Adjacencies = [\<lparr>AdjacencyState = ''Up''\<rparr>, \<lparr>AdjacencyState = ''Down''\<rparr>,
                     \<lparr>AdjacencyState = ''Up''\<rparr>]\<rparr>"

text \<open>
  A stand-in for \<open>strconv.ParseFloat\<close> that parses two texts and fails on every other
  one, and three entries of the optics reply: one without optics, one that reports a module
  voltage, one that does not. The text "- Inf" is what the device prints for the dBm value
  of a power of zero.
\<close>

definition exampleParseFloat :: "string \<Rightarrow> float64 \<times> error option" where
  "exampleParseFloat s =
     (if s = ''-2.5'' then (- 5 / 2, None)
      else if s = ''1.5'' then (3 / 2, None)
      else (0, Some (NumError ''invalid syntax'')))"

definition naDiag :: PhyDiagInterface where
  "naDiag = \<lparr>PhyDiagInterface.Name = ''ge-0/0/2'',
             Diagnostics = \<lparr>NA = ''N/A'',
               OpticsDiagnostics.LaserBiasCurrent = 0, OpticsDiagnostics.LaserOutputPower = 0,
               OpticsDiagnostics.LaserOutputPowerDbm = [],
               OpticsDiagnostics.ModuleTemperature = 0, OpticsDiagnostics.ModuleVoltage = 0,
               OpticsDiagnostics.RxSignalAvgOpticalPower = 0,
               OpticsDiagnostics.RxSignalAvgOpticalPowerDbm = [],
               OpticsDiagnostics.LaserRxOpticalPower = 0,
               OpticsDiagnostics.LaserRxOpticalPowerDbm = []\<rparr>\<rparr>"

definition voltDiag :: PhyDiagInterface where
  "voltDiag = \<lparr>PhyDiagInterface.Name = ''xe-0/0/0'',
             Diagnostics = \<lparr>NA = [],
               OpticsDiagnostics.LaserBiasCurrent = 6, OpticsDiagnostics.LaserOutputPower = 0,
               OpticsDiagnostics.LaserOutputPowerDbm = ''- Inf'',
               OpticsDiagnostics.ModuleTemperature = 35, OpticsDiagnostics.ModuleVoltage = 3,
               OpticsDiagnostics.RxSignalAvgOpticalPower = 1 / 2,
               OpticsDiagnostics.RxSignalAvgOpticalPowerDbm = ''-2.5'',
               OpticsDiagnostics.LaserRxOpticalPower = 7,
               OpticsDiagnostics.LaserRxOpticalPowerDbm = ''1.5''\<rparr>\<rparr>"

definition laserDiag :: PhyDiagInterface where
  "laserDiag = \<lparr>PhyDiagInterface.Name = ''et-0/0/1'',
             Diagnostics = \<lparr>NA = [],
               OpticsDiagnostics.LaserBiasCurrent = 6, OpticsDiagnostics.LaserOutputPower = 1,
               OpticsDiagnostics.LaserOutputPowerDbm = ''1.5'',
               OpticsDiagnostics.ModuleTemperature = 35, OpticsDiagnostics.ModuleVoltage = 0,
               OpticsDiagnostics.RxSignalAvgOpticalPower = 9,
               OpticsDiagnostics.RxSignalAvgOpticalPowerDbm = ''-2.5'',
               OpticsDiagnostics.LaserRxOpticalPower = 1 / 2,
               OpticsDiagnostics.LaserRxOpticalPowerDbm = ''- Inf''\<rparr>\<rparr>"

text \<open>
  Items of the environment reply: a sensor reported twice, and an item without a
  temperature.
\<close>

definition envItem :: "string \<Rightarrow> float64 option \<Rightarrow> EnvironmentRpcItem" where
  "envItem n t = \<lparr>EnvironmentRpcItem.Name = n, EnvironmentRpcItem.Temperature = t\<rparr>"

definition exampleEnvironment :: EnvironmentRpc where
  "exampleEnvironment =
     \<lparr>Items = [envItem ''PSU 0'' (Some 30), envItem ''Fan 1'' None,
               envItem ''PSU 0'' (Some 45), envItem ''CPU'' (Some 50)]\<rparr>"

text \<open>An entry without a module voltage that receives no light.\<close>

definition darkDiag :: PhyDiagInterface where
  "darkDiag = \<lparr>PhyDiagInterface.Name = ''xe-0/0/3'',
             Diagnostics = \<lparr>NA = [],
               OpticsDiagnostics.LaserBiasCurrent = 6, OpticsDiagnostics.LaserOutputPower = 1,
               OpticsDiagnostics.LaserOutputPowerDbm = ''1.5'',
               OpticsDiagnostics.ModuleTemperature = 35, OpticsDiagnostics.ModuleVoltage = 0,
               OpticsDiagnostics.RxSignalAvgOpticalPower = 0,
               OpticsDiagnostics.RxSignalAvgOpticalPowerDbm = [],
               OpticsDiagnostics.LaserRxOpticalPower = 0,
               OpticsDiagnostics.LaserRxOpticalPowerDbm = ''- Inf''\<rparr>\<rparr>"

section \<open>The command runner\<close>

lemma runCommandAndParse_channel_error:
  "RunCommand (conn c) (cmd @ '' | display xml'') = (b, Some err) \<Longrightarrow>
     runCommandAndParse c xmlUnmarshal cmd obj = (obj, Some err)"
  by (simp add: runCommandAndParse_def)

lemma runCommandAndParse_decoded:
  "RunCommand (conn c) (cmd @ '' | display xml'') = (b, None) \<Longrightarrow>
     runCommandAndParse c xmlUnmarshal cmd obj = xmlUnmarshal b obj"
  by (simp add: runCommandAndParse_def)

lemma runCommandAndParse_echo:
  "runCommandAndParse (clientOf echoConn) (replyWith x) cmd obj = (x, None)"
  by (simp add: runCommandAndParse_def clientOf_def echoConn_def replyWith_def)

section \<open>Interfaces: the records of the RPC client\<close>

lemma logicalLoop_append:
  "logicalLoop phy lgs stats = stats @ map (logicalStats phy) lgs"
  by (induction lgs arbitrary: stats) simp_all

lemma interfacesLoop_append:
  "interfacesLoop phys stats = stats @ concat (map interfaceRecords phys)"
  by (induction phys arbitrary: stats) (simp_all add: logicalLoop_append interfaceRecords_def)

lemma InterfaceStats_result:
  "RpcClient_InterfaceStats c xmlUnmarshal =
     (case runCommandAndParse c xmlUnmarshal ''show interfaces statistics detail'' InterfaceRpc_zero of
        (x, Some err) \<Rightarrow> (None, Some err)
      | (x, None) \<Rightarrow> (Some (concat (map interfaceRecords (Interfaces x))), None))"
  by (simp add: RpcClient_InterfaceStats_def interfacesLoop_append split: prod.splits option.splits)

lemma IsPhysical_logicalStats: "\<not> IsPhysical (logicalStats phy lg)"
  by (simp add: logicalStats_def)

lemma physical_record_origin:
  assumes "s \<in> set (concat (map interfaceRecords phys))" "IsPhysical s"
  shows "\<exists>phy \<in> set phys. s = physicalStats phy"
  using assms by (auto simp: interfaceRecords_def IsPhysical_logicalStats)

text \<open>
  C1, as the code has it. When the command runs and its reply decodes to the envelope
  \<open>x\<close>, \<open>InterfaceStats\<close> returns records without an error, every physical entry of
  the envelope has its record among them, and every physical record \<open>s\<close> among them comes
  from an entry \<open>phy\<close> of the envelope such that: the admin and operational booleans of
  \<open>s\<close> are the comparisons of the two status strings of \<open>phy\<close> with "up"; the
  error status of \<open>s\<close> is true exactly when the two status STRINGS of \<open>phy\<close> differ;
  hence the error status is true whenever the two booleans differ; and when both strings
  are "up", the error status is false and both booleans are true.
\<close>

theorem physical_error_status_compares_strings:
  assumes "runCommandAndParse c xmlUnmarshal ''show interfaces statistics detail''
             InterfaceRpc_zero = (x, None)"
  shows "\<exists>stats. RpcClient_InterfaceStats c xmlUnmarshal = (Some stats, None)
         \<and> (\<forall>phy \<in> set (Interfaces x). physicalStats phy \<in> set stats)
         \<and> (\<forall>s \<in> set stats. IsPhysical s \<longrightarrow>
              (\<exists>phy \<in> set (Interfaces x).
                 s = physicalStats phy
               \<and> InterfaceStats.AdminStatus s = (PhyInterface.AdminStatus phy = ''up'')
               \<and> InterfaceStats.OperStatus s = (PhyInterface.OperStatus phy = ''up'')
               \<and> ErrorStatus s = (PhyInterface.AdminStatus phy \<noteq> PhyInterface.OperStatus phy)
               \<and> (InterfaceStats.AdminStatus s \<noteq> InterfaceStats.OperStatus s \<longrightarrow> ErrorStatus s)
               \<and> (PhyInterface.AdminStatus phy = ''up'' \<and> PhyInterface.OperStatus phy = ''up''
                    \<longrightarrow> \<not> ErrorStatus s \<and> InterfaceStats.AdminStatus s
                        \<and> InterfaceStats.OperStatus s)))"
proof (intro exI conjI ballI impI)
  show "RpcClient_InterfaceStats c xmlUnmarshal
          = (Some (concat (map interfaceRecords (Interfaces x))), None)"
    by (simp add: InterfaceStats_result assms)
next
  fix phy assume "phy \<in> set (Interfaces x)"
  then show "physicalStats phy \<in> set (concat (map interfaceRecords (Interfaces x)))"
    by (auto simp: interfaceRecords_def)
next
  fix s assume "s \<in> set (concat (map interfaceRecords (Interfaces x)))" "IsPhysical s"
  from physical_record_origin[OF this]
  obtain phy where phy: "phy \<in> set (Interfaces x)" "s = physicalStats phy" by blast
  show "\<exists>phy \<in> set (Interfaces x).
          s = physicalStats phy
        \<and> InterfaceStats.AdminStatus s = (PhyInterface.AdminStatus phy = ''up'')
        \<and> InterfaceStats.OperStatus s = (PhyInterface.OperStatus phy = ''up'')
        \<and> ErrorStatus s = (PhyInterface.AdminStatus phy \<noteq> PhyInterface.OperStatus phy)
        \<and> (InterfaceStats.AdminStatus s \<noteq> InterfaceStats.OperStatus s \<longrightarrow> ErrorStatus s)
        \<and> (PhyInterface.AdminStatus phy = ''up'' \<and> PhyInterface.OperStatus phy = ''up''
             \<longrightarrow> \<not> ErrorStatus s \<and> InterfaceStats.AdminStatus s \<and> InterfaceStats.OperStatus s)"
    using phy by (intro bexI[of _ phy]) (auto simp: physicalStats_def)
qed

theorem physical_error_status_compares_strings_witness:
  "runCommandAndParse (clientOf echoConn) (replyWith \<lparr>Interfaces = [upPhy, downTestingPhy]\<rparr>)
     ''show interfaces statistics detail'' InterfaceRpc_zero
     = (\<lparr>Interfaces = [upPhy, downTestingPhy]\<rparr>, None)
   \<and> (\<exists>stats. RpcClient_InterfaceStats (clientOf echoConn)
                 (replyWith \<lparr>Interfaces = [upPhy, downTestingPhy]\<rparr>) = (Some stats, None)
         \<and> physicalStats upPhy \<in> set stats
         \<and> IsPhysical (physicalStats upPhy)
         \<and> \<not> ErrorStatus (physicalStats upPhy)
         \<and> InterfaceStats.AdminStatus (physicalStats upPhy)
         \<and> InterfaceStats.OperStatus (physicalStats upPhy))"
proof -
  let ?x = "\<lparr>Interfaces = [upPhy, downTestingPhy]\<rparr>"
  have h: "runCommandAndParse (clientOf echoConn) (replyWith ?x)
             ''show interfaces statistics detail'' InterfaceRpc_zero = (?x, None)"
    by (rule runCommandAndParse_echo)
  from physical_error_status_compares_strings[OF h]
  obtain stats where st: "RpcClient_InterfaceStats (clientOf echoConn) (replyWith ?x) = (Some stats, None)"
    and mem: "\<forall>phy \<in> set (Interfaces ?x). physicalStats phy \<in> set stats"
    by blast
  from mem have "physicalStats upPhy \<in> set stats" by simp
  moreover have "IsPhysical (physicalStats upPhy)" "\<not> ErrorStatus (physicalStats upPhy)"
    "InterfaceStats.AdminStatus (physicalStats upPhy)" "InterfaceStats.OperStatus (physicalStats upPhy)"
    by (simp_all add: physicalStats_def upPhy_def)
  ultimately show ?thesis using h st by blast
qed

text \<open>
  C1 as stated fails: for an entry with admin status "down" and operational status
  "testing" both booleans are false, so they do not differ, and the error status is true.
\<close>

theorem physical_error_status_counterexample:
  "RpcClient_InterfaceStats (clientOf echoConn) (replyWith \<lparr>Interfaces = [downTestingPhy]\<rparr>)
     = (Some [physicalStats downTestingPhy], None)
   \<and> IsPhysical (physicalStats downTestingPhy)
   \<and> InterfaceStats.AdminStatus (physicalStats downTestingPhy) = False
   \<and> InterfaceStats.OperStatus (physicalStats downTestingPhy) = False
   \<and> ErrorStatus (physicalStats downTestingPhy) = True"
  by (simp add: InterfaceStats_result runCommandAndParse_echo interfaceRecords_def
      physicalStats_def downTestingPhy_def)

section \<open>Interfaces: the samples of the collector\<close>

lemma variableLabels_descs:
  "variableLabels receiveBytesDesc = init_l" "variableLabels receiveErrorsDesc = init_l"
  "variableLabels receiveDropsDesc = init_l" "variableLabels transmitBytesDesc = init_l"
  "variableLabels transmitErrorsDesc = init_l" "variableLabels transmitDropsDesc = init_l"
  "variableLabels adminStatusDesc = init_l" "variableLabels operStatusDesc = init_l"
  "variableLabels errorStatusDesc = init_l"
  by (simp_all add: receiveBytesDesc_def receiveErrorsDesc_def receiveDropsDesc_def
      transmitBytesDesc_def transmitErrorsDesc_def transmitDropsDesc_def adminStatusDesc_def
      operStatusDesc_def errorStatusDesc_def NewDesc_def)

lemma length_init_l: "length init_l = 4"
  by (simp add: init_l_def)

lemma send_ok:
  "\<not> panicked ch \<Longrightarrow> variableLabels d = init_l \<Longrightarrow> length ls = 4 \<Longrightarrow>
     send d v ls ch = ch\<lparr>sent := sent ch @ [gauge d v ls]\<rparr>"
  by (simp add: send_def MustNewConstMetric_def gauge_def length_init_l)

lemma send_panicked: "panicked ch \<Longrightarrow> send d v ls ch = ch"
  by (simp add: send_def)

lemma send_arity_panic:
  "\<not> panicked ch \<Longrightarrow> variableLabels d = init_l \<Longrightarrow> length ls \<noteq> 4 \<Longrightarrow>
     send d v ls ch = ch\<lparr>panicked := True\<rparr>"
  by (simp add: send_def MustNewConstMetric_def length_init_l)

lemma send2_ok:
  assumes "\<not> panicked ch" "length ls = 4"
  shows "send transmitBytesDesc (TransmitBytes s) ls (send receiveBytesDesc (ReceiveBytes s) ls ch)
         = ch\<lparr>sent := sent ch @ byteSamples s ls\<rparr>"
  using assms by (simp add: send_ok variableLabels_descs byteSamples_def)

lemma send7_ok:
  assumes "\<not> panicked ch" "length ls = 4"
  shows "send receiveDropsDesc (ReceiveDrops s) ls
          (send receiveErrorsDesc (ReceiveErrors s) ls
            (send transmitDropsDesc (TransmitDrops s) ls
              (send transmitErrorsDesc (TransmitErrors s) ls
                (send errorStatusDesc (float64 (if ErrorStatus s then 1 else 0)) ls
                  (send operStatusDesc (float64 (if InterfaceStats.OperStatus s then 1 else 0)) ls
                    (send adminStatusDesc (float64 (if InterfaceStats.AdminStatus s then 1 else 0)) ls ch))))))
         = ch\<lparr>sent := sent ch @ statusSamples s ls\<rparr>"
  using assms by (simp add: send_ok variableLabels_descs statusSamples_def float64_def)

lemma collectForInterface_ok:
  assumes "\<not> panicked ch" "length labelValues = 1"
  shows "InterfaceCollector_collectForInterface s ch labelValues =
           ch\<lparr>sent := sent ch @ interfaceSamples labelValues s\<rparr>"
proof -
  let ?ls = "labelValues @ [InterfaceStats.Name s, InterfaceStats.Description s, Mac s]"
  have len: "length ?ls = 4"
    using assms(2) by simp
  have np: "\<not> panicked (ch\<lparr>sent := sent ch @ byteSamples s ?ls\<rparr>)"
    using assms(1) by simp
  show ?thesis
    unfolding InterfaceCollector_collectForInterface_def Let_def interfaceSamples_def
      send2_ok[OF assms(1) len] send7_ok[OF np len]
    by simp
qed

lemma collectForInterface_panicked:
  "panicked ch \<Longrightarrow> InterfaceCollector_collectForInterface s ch labelValues = ch"
  unfolding InterfaceCollector_collectForInterface_def Let_def
  by (simp add: send_panicked)

lemma collectLoop_ok:
  "\<not> panicked ch \<Longrightarrow> length labelValues = 1 \<Longrightarrow>
     collectLoop stats ch labelValues =
       ch\<lparr>sent := sent ch @ concat (map (interfaceSamples labelValues) stats)\<rparr>"
proof (induction stats arbitrary: ch)
  case Nil
  then show ?case by simp
next
  case (Cons s stats)
  have np: "\<not> panicked (ch\<lparr>sent := sent ch @ interfaceSamples labelValues s\<rparr>)"
    using Cons.prems(1) by simp
  show ?case
    using Cons.IH[OF np Cons.prems(2)] Cons.prems
    by (simp add: collectForInterface_ok)
qed

lemma Collect_error:
  "InterfaceCollector_Collect (stats, Some err) ch labelValues = (Some err, ch)"
  by (simp add: InterfaceCollector_Collect_def)

lemma Collect_ok:
  "\<not> panicked ch \<Longrightarrow> length labelValues = 1 \<Longrightarrow>
     InterfaceCollector_Collect (Some stats, None) ch labelValues =
       (None, ch\<lparr>sent := sent ch @ concat (map (interfaceSamples labelValues) stats)\<rparr>)"
  by (simp add: InterfaceCollector_Collect_def collectLoop_ok)

lemma collectForInterface_arity_panic:
  assumes "\<not> panicked ch" "length labelValues \<noteq> 1"
  shows "InterfaceCollector_collectForInterface s ch labelValues = ch\<lparr>panicked := True\<rparr>"
proof -
  let ?ls = "labelValues @ [InterfaceStats.Name s, InterfaceStats.Description s, Mac s]"
  have len: "length ?ls \<noteq> 4"
    using assms(2) by simp
  have first: "send receiveBytesDesc (ReceiveBytes s) ?ls ch = ch\<lparr>panicked := True\<rparr>"
    using assms(1) len by (simp add: send_arity_panic variableLabels_descs)
  have p: "panicked (ch\<lparr>panicked := True\<rparr>)" by simp
  show ?thesis
    unfolding InterfaceCollector_collectForInterface_def Let_def first
    by (simp add: send_panicked)
qed

lemma collectForInterface_sent:
  "\<exists>new. sent (InterfaceCollector_collectForInterface s ch labelValues) = sent ch @ new
     \<and> (new = [] \<or> new = interfaceSamples labelValues s)"
proof (cases "panicked ch")
  case True
  then show ?thesis by (simp add: collectForInterface_panicked)
next
  case False
  show ?thesis
  proof (cases "length labelValues = 1")
    case True
    with False show ?thesis by (simp add: collectForInterface_ok)
  next
    case False
    with \<open>\<not> panicked ch\<close> show ?thesis by (simp add: collectForInterface_arity_panic)
  qed
qed


text \<open>
  C6. For the envelope \<open>x\<close> the reply decodes to, \<open>InterfaceStats\<close> returns, for
  each physical entry in turn, its physical record followed by one record for each of its
  logical interfaces. The record of a logical interface is not physical and carries the
  name, the description and the two byte counters of the logical interface and the hardware
  address of the physical entry; its status booleans are false and its error and drop
  counters are zero. \<open>Collect\<close>, called with the target as the one label value, sends for
  each record in turn its samples: the two byte counters for a record that is not physical,
  and these two followed by admin status, operational status, error status and the four
  error and drop counters for a physical record. Whatever the label values, whatever the
  channel, what \<open>collectForInterface\<close> sends for a record is nothing or these samples.
\<close>

theorem logical_records_carry_bytes_only:
  "(runCommandAndParse c xmlUnmarshal ''show interfaces statistics detail'' InterfaceRpc_zero
      = (x, None) \<longrightarrow>
    RpcClient_InterfaceStats c xmlUnmarshal
      = (Some (concat (map interfaceRecords (Interfaces x))), None))
   \<and> interfaceRecords phy = physicalStats phy # map (logicalStats phy) (LogicalInterfaces phy)
   \<and> logicalStats phy lg =
        \<lparr>InterfaceStats.Name = LogInterface.Name lg,
         InterfaceStats.AdminStatus = False,
         InterfaceStats.OperStatus = False,
         ErrorStatus = False,
         InterfaceStats.Description = LogInterface.Description lg,
         Mac = MacAddress phy,
         IsPhysical = False,
         ReceiveBytes = float64 (InputBytes (LogInterface.Stats lg)),
         ReceiveErrors = 0,
         ReceiveDrops = 0,
         TransmitBytes = float64 (OutputBytes (LogInterface.Stats lg)),
         TransmitErrors = 0,
         TransmitDrops = 0\<rparr>
   \<and> (\<not> panicked ch \<and> length labelValues = 1 \<longrightarrow>
        InterfaceCollector_Collect (Some stats, None) ch labelValues
          = (None, ch\<lparr>sent := sent ch @ concat (map (interfaceSamples labelValues) stats)\<rparr>))
   \<and> (\<not> IsPhysical s \<longrightarrow>
        interfaceSamples labelValues s =
          (let ls = labelValues @ [InterfaceStats.Name s, InterfaceStats.Description s, Mac s]
           in [gauge receiveBytesDesc (ReceiveBytes s) ls,
               gauge transmitBytesDesc (TransmitBytes s) ls]))
   \<and> (IsPhysical s \<longrightarrow>
        interfaceSamples labelValues s =
          (let ls = labelValues @ [InterfaceStats.Name s, InterfaceStats.Description s, Mac s]
           in [gauge receiveBytesDesc (ReceiveBytes s) ls,
               gauge transmitBytesDesc (TransmitBytes s) ls,
               gauge adminStatusDesc (if InterfaceStats.AdminStatus s then 1 else 0) ls,
               gauge operStatusDesc (if InterfaceStats.OperStatus s then 1 else 0) ls,
               gauge errorStatusDesc (if ErrorStatus s then 1 else 0) ls,
               gauge transmitErrorsDesc (TransmitErrors s) ls,
               gauge transmitDropsDesc (TransmitDrops s) ls,
               gauge receiveErrorsDesc (ReceiveErrors s) ls,
               gauge receiveDropsDesc (ReceiveDrops s) ls]))
   \<and> (\<exists>new. sent (InterfaceCollector_collectForInterface s ch labelValues) = sent ch @ new
          \<and> (new = [] \<or> new = interfaceSamples labelValues s))"
proof (intro conjI impI)
  assume "runCommandAndParse c xmlUnmarshal ''show interfaces statistics detail'' InterfaceRpc_zero
            = (x, None)"
  then show "RpcClient_InterfaceStats c xmlUnmarshal
               = (Some (concat (map interfaceRecords (Interfaces x))), None)"
    by (simp add: InterfaceStats_result)
next
  show "interfaceRecords phy = physicalStats phy # map (logicalStats phy) (LogicalInterfaces phy)"
    by (rule interfaceRecords_def)
next
  show "logicalStats phy lg =
        \<lparr>InterfaceStats.Name = LogInterface.Name lg,
         InterfaceStats.AdminStatus = False,
         InterfaceStats.OperStatus = False,
         ErrorStatus = False,
         InterfaceStats.Description = LogInterface.Description lg,
         Mac = MacAddress phy,
         IsPhysical = False,
         ReceiveBytes = float64 (InputBytes (LogInterface.Stats lg)),
         ReceiveErrors = 0,
         ReceiveDrops = 0,
         TransmitBytes = float64 (OutputBytes (LogInterface.Stats lg)),
         TransmitErrors = 0,
         TransmitDrops = 0\<rparr>"
    by (rule logicalStats_def)
next
  assume "\<not> panicked ch \<and> length labelValues = 1"
  then show "InterfaceCollector_Collect (Some stats, None) ch labelValues
          = (None, ch\<lparr>sent := sent ch @ concat (map (interfaceSamples labelValues) stats)\<rparr>)"
    by (simp add: Collect_ok)
next
  assume "\<not> IsPhysical s"
  then show "interfaceSamples labelValues s =
          (let ls = labelValues @ [InterfaceStats.Name s, InterfaceStats.Description s, Mac s]
           in [gauge receiveBytesDesc (ReceiveBytes s) ls,
               gauge transmitBytesDesc (TransmitBytes s) ls])"
    by (simp add: interfaceSamples_def byteSamples_def Let_def)
next
  assume "IsPhysical s"
  then show "interfaceSamples labelValues s =
          (let ls = labelValues @ [InterfaceStats.Name s, InterfaceStats.Description s, Mac s]
           in [gauge receiveBytesDesc (ReceiveBytes s) ls,
               gauge transmitBytesDesc (TransmitBytes s) ls,
               gauge adminStatusDesc (if InterfaceStats.AdminStatus s then 1 else 0) ls,
               gauge operStatusDesc (if InterfaceStats.OperStatus s then 1 else 0) ls,
               gauge errorStatusDesc (if ErrorStatus s then 1 else 0) ls,
               gauge transmitErrorsDesc (TransmitErrors s) ls,
               gauge transmitDropsDesc (TransmitDrops s) ls,
               gauge receiveErrorsDesc (ReceiveErrors s) ls,
               gauge receiveDropsDesc (ReceiveDrops s) ls])"
    by (simp add: interfaceSamples_def byteSamples_def statusSamples_def Let_def)
next
  show "\<exists>new. sent (InterfaceCollector_collectForInterface s ch labelValues) = sent ch @ new
          \<and> (new = [] \<or> new = interfaceSamples labelValues s)"
    by (rule collectForInterface_sent)
qed

lemma fqName_descs:
  "fqName receiveBytesDesc = ''junos_interface_receive_bytes''"
  "fqName receiveErrorsDesc = ''junos_interface_receive_errors''"
  "fqName receiveDropsDesc = ''junos_interface_receive_drops''"
  "fqName transmitBytesDesc = ''junos_interface_transmit_bytes''"
  "fqName transmitErrorsDesc = ''junos_interface_transmit_errors''"
  "fqName transmitDropsDesc = ''junos_interface_transmit_drops''"
  "fqName adminStatusDesc = ''junos_interface_admin_up''"
  "fqName operStatusDesc = ''junos_interface_up''"
  "fqName errorStatusDesc = ''junos_interface_error_status''"
  by (simp_all add: receiveBytesDesc_def receiveErrorsDesc_def receiveDropsDesc_def
      transmitBytesDesc_def transmitErrorsDesc_def transmitDropsDesc_def adminStatusDesc_def
      operStatusDesc_def errorStatusDesc_def NewDesc_def prefix_def)

theorem logical_records_carry_bytes_only_witness:
  "runCommandAndParse (clientOf echoConn) (replyWith \<lparr>Interfaces = [upPhy]\<rparr>)
     ''show interfaces statistics detail'' InterfaceRpc_zero = (\<lparr>Interfaces = [upPhy]\<rparr>, None)
   \<and> RpcClient_InterfaceStats (clientOf echoConn) (replyWith \<lparr>Interfaces = [upPhy]\<rparr>)
       = (Some [physicalStats upPhy, logicalStats upPhy unit0], None)
   \<and> \<not> panicked emptyChan \<and> length [''router1''] = 1
   \<and> IsPhysical (physicalStats upPhy) \<and> \<not> IsPhysical (logicalStats upPhy unit0)
   \<and> map (\<lambda>m. (fqName (metricDesc m), metricValue m))
        (sent (snd (InterfaceCollector_Collect
           (Some [physicalStats upPhy, logicalStats upPhy unit0], None) emptyChan [''router1''])))
       = [(''junos_interface_receive_bytes'', 1000), (''junos_interface_transmit_bytes'', 2000),
          (''junos_interface_admin_up'', 1), (''junos_interface_up'', 1),
          (''junos_interface_error_status'', 0), (''junos_interface_transmit_errors'', 4),
          (''junos_interface_transmit_drops'', 3), (''junos_interface_receive_errors'', 2),
          (''junos_interface_receive_drops'', 1),
          (''junos_interface_receive_bytes'', 700), (''junos_interface_transmit_bytes'', 900)]"
proof -
  let ?x = "\<lparr>Interfaces = [upPhy]\<rparr>"
  let ?stats = "[physicalStats upPhy, logicalStats upPhy unit0]"
  note inst = logical_records_carry_bytes_only[of "clientOf echoConn" "replyWith ?x" ?x
      upPhy unit0 emptyChan "[''router1'']" ?stats]
  have h: "runCommandAndParse (clientOf echoConn) (replyWith ?x)
             ''show interfaces statistics detail'' InterfaceRpc_zero = (?x, None)"
    by (rule runCommandAndParse_echo)
  have np: "\<not> panicked emptyChan \<and> length [''router1''] = 1"
    by (simp add: emptyChan_def)
  have recs: "concat (map interfaceRecords (Interfaces ?x)) = ?stats"
    by (simp add: interfaceRecords_def upPhy_def)
  have phys: "IsPhysical (physicalStats upPhy)" "\<not> IsPhysical (logicalStats upPhy unit0)"
    by (simp_all add: physicalStats_def logicalStats_def)
  have r1: "RpcClient_InterfaceStats (clientOf echoConn) (replyWith ?x) = (Some ?stats, None)"
    using inst[of "physicalStats upPhy"] h recs by simp
  have r2: "InterfaceCollector_Collect (Some ?stats, None) emptyChan [''router1'']
          = (None, emptyChan\<lparr>sent := sent emptyChan @ concat (map (interfaceSamples [''router1'']) ?stats)\<rparr>)"
    using inst[of "physicalStats upPhy"] np by blast
  have s1: "map (\<lambda>m. (fqName (metricDesc m), metricValue m)) (interfaceSamples [''router1''] (physicalStats upPhy))
      = [(''junos_interface_receive_bytes'', 1000), (''junos_interface_transmit_bytes'', 2000),
          (''junos_interface_admin_up'', 1), (''junos_interface_up'', 1),
          (''junos_interface_error_status'', 0), (''junos_interface_transmit_errors'', 4),
          (''junos_interface_transmit_drops'', 3), (''junos_interface_receive_errors'', 2),
          (''junos_interface_receive_drops'', 1)]"
    by (simp add: interfaceSamples_def byteSamples_def statusSamples_def gauge_def fqName_descs
        physicalStats_def upPhy_def float64_def Let_def)
  have s2: "map (\<lambda>m. (fqName (metricDesc m), metricValue m)) (interfaceSamples [''router1''] (logicalStats upPhy unit0))
      = [(''junos_interface_receive_bytes'', 700), (''junos_interface_transmit_bytes'', 900)]"
    by (simp add: interfaceSamples_def byteSamples_def gauge_def fqName_descs
        logicalStats_def unit0_def float64_def Let_def)
  have r3: "map (\<lambda>m. (fqName (metricDesc m), metricValue m))
        (sent (snd (InterfaceCollector_Collect (Some ?stats, None) emptyChan [''router1''])))
      = [(''junos_interface_receive_bytes'', 1000), (''junos_interface_transmit_bytes'', 2000),
          (''junos_interface_admin_up'', 1), (''junos_interface_up'', 1),
          (''junos_interface_error_status'', 0), (''junos_interface_transmit_errors'', 4),
          (''junos_interface_transmit_drops'', 3), (''junos_interface_receive_errors'', 2),
          (''junos_interface_receive_drops'', 1),
          (''junos_interface_receive_bytes'', 700), (''junos_interface_transmit_bytes'', 900)]"
    unfolding r2 using s1 s2 by (simp add: emptyChan_def)
  show ?thesis
    using h r1 np phys r3 by simp
qed

section \<open>Alarms: the two tallies\<close>

lemma alarmDetailsLoop_counts:
  "alarmDetailsLoop c ds (red, yellow) =
     (red + counted c ''Major'' ds, yellow + counted c ''Minor'' ds)"
  by (induction ds arbitrary: red yellow) (simp_all add: counted_def)

lemma counted_append: "counted c cls (ds @ es) = counted c cls ds + counted c cls es"
  by (simp add: counted_def)

lemma AlarmCounter_result:
  "RpcClient_AlarmCounter c u =
     (case runCommandAndParse c u ''show system alarms'' AlarmRpc_zero of
        (a, Some err) \<Rightarrow> (None, Some err)
      | (a, None) \<Rightarrow>
          (case runCommandAndParse c u ''show chassis alarms'' AlarmRpc_zero of
             (b, Some err) \<Rightarrow> (None, Some err)
           | (b, None) \<Rightarrow>
               (Some \<lparr>RedCount = float64 (counted c ''Major'' (Details a @ Details b)),
                      YellowCount = float64 (counted c ''Minor'' (Details a @ Details b))\<rparr>, None)))"
  by (simp add: RpcClient_AlarmCounter_def alarmDetailsLoop_counts counted_append
      split: prod.splits option.splits)

section \<open>Errors of the channel and of the decoder\<close>

lemma commandError_cases:
  "commandError c xmlUnmarshal cmd obj =
     (case RunCommand (conn c) (cmd @ '' | display xml'') of
        (b, Some err) \<Rightarrow> Some err
      | (b, None) \<Rightarrow> snd (xmlUnmarshal b obj))"
  by (simp add: commandError_def runCommandAndParse_def split: prod.splits option.splits)

lemma commandError_Some:
  "commandError c xmlUnmarshal cmd obj = Some e \<Longrightarrow>
     \<exists>x. runCommandAndParse c xmlUnmarshal cmd obj = (x, Some e)"
  by (cases "runCommandAndParse c xmlUnmarshal cmd obj") (simp add: commandError_def)

lemma commandError_None:
  "commandError c xmlUnmarshal cmd obj = None \<Longrightarrow>
     \<exists>x. runCommandAndParse c xmlUnmarshal cmd obj = (x, None)"
  by (cases "runCommandAndParse c xmlUnmarshal cmd obj") (simp add: commandError_def)

lemma InterfaceStats_error:
  "commandError c u ''show interfaces statistics detail'' InterfaceRpc_zero = Some e \<Longrightarrow>
     RpcClient_InterfaceStats c u = (None, Some e)"
  by (auto dest!: commandError_Some simp: RpcClient_InterfaceStats_def)

lemma BgpSessions_error:
  "commandError c u ''show bgp summary'' BgpRpc_zero = Some e \<Longrightarrow>
     RpcClient_BgpSessions c u = (None, Some e)"
  by (auto dest!: commandError_Some simp: RpcClient_BgpSessions_def)

lemma OspfAreas_error:
  "commandError c u ''show ospf3 overview'' Ospf3Rpc_zero = Some e \<Longrightarrow>
     RpcClient_OspfAreas c u = (None, Some e)"
  by (auto dest!: commandError_Some simp: RpcClient_OspfAreas_def)

lemma IsisAdjancies_error:
  "commandError c u ''show isis adjacency'' IsisRpc_zero = Some e \<Longrightarrow>
     RpcClient_IsisAdjancies c u = (None, Some e)"
  by (auto dest!: commandError_Some simp: RpcClient_IsisAdjancies_def)

lemma RoutingTables_error:
  "commandError c u ''show route summary'' RouteRpc_zero = Some e \<Longrightarrow>
     RpcClient_RoutingTables c u = (None, Some e)"
  by (auto dest!: commandError_Some simp: RpcClient_RoutingTables_def)

lemma RouteEngineStats_error:
  "commandError c u ''show chassis routing-engine'' RoutingEngineRpc_zero = Some e \<Longrightarrow>
     RpcClient_RouteEngineStats c u = (None, Some e)"
  by (auto dest!: commandError_Some simp: RpcClient_RouteEngineStats_def)

lemma EnvironmentItems_error:
  "commandError c u ''show chassis environment'' EnvironmentRpc_zero = Some e \<Longrightarrow>
     RpcClient_EnvironmentItems rangeOrder c u = (None, Some e)"
  by (auto dest!: commandError_Some simp: RpcClient_EnvironmentItems_def)

lemma InterfaceDiagnostics_error:
  "commandError c u ''show interfaces diagnostics optics'' InterfaceDiagnosticsRpc_zero = Some e \<Longrightarrow>
     RpcClient_InterfaceDiagnostics ParseFloat c u = (None, Some e)"
  by (auto dest!: commandError_Some simp: RpcClient_InterfaceDiagnostics_def)

lemma AlarmCounter_error_first:
  "commandError c u ''show system alarms'' AlarmRpc_zero = Some e \<Longrightarrow>
     RpcClient_AlarmCounter c u = (None, Some e)"
  by (auto dest!: commandError_Some simp: AlarmCounter_result)

lemma AlarmCounter_error_second:
  "commandError c u ''show system alarms'' AlarmRpc_zero = None \<Longrightarrow>
   commandError c u ''show chassis alarms'' AlarmRpc_zero = Some e \<Longrightarrow>
     RpcClient_AlarmCounter c u = (None, Some e)"
  by (auto dest!: commandError_Some commandError_None simp: AlarmCounter_result)

lemma Collect_datasource_error:
  "commandError c u ''show interfaces statistics detail'' InterfaceRpc_zero = Some e \<Longrightarrow>
     InterfaceCollector_Collect (RpcClient_InterfaceStats c u) ch labelValues = (Some e, ch)"
  by (simp add: InterfaceStats_error Collect_error)


text \<open>
  C5. A command ends with the error \<open>e\<close> when the channel returns \<open>e\<close>, and when
  the channel returns bytes and decoding them fails with \<open>e\<close>. Each of the nine domain
  operations whose command ends with an error returns that error and \<open>nil\<close> in place
  of records; \<open>AlarmCounter\<close> does so for an error of its first command and, after a first
  command that succeeded, for an error of its second. \<open>Collect\<close> of the interface
  collector, the collector of the source at hand, returns the error of its datasource and
  leaves the channel as it was, whatever records came with the error; so it does when the
  datasource is \<open>InterfaceStats\<close> and its command ends with an error.
\<close>

theorem errors_abort_without_records:
  "(RunCommand (conn c) (cmd @ '' | display xml'') = (b, Some e)
      \<longrightarrow> commandError c xmlUnmarshal cmd obj = Some e)
   \<and> (RunCommand (conn c) (cmd @ '' | display xml'') = (b, None)
        \<and> snd (xmlUnmarshal b obj) = Some e
      \<longrightarrow> commandError c xmlUnmarshal cmd obj = Some e)
   \<and> (commandError c uIf ''show interfaces statistics detail'' InterfaceRpc_zero = Some e
      \<longrightarrow> RpcClient_InterfaceStats c uIf = (None, Some e))
   \<and> (commandError c uBgp ''show bgp summary'' BgpRpc_zero = Some e
      \<longrightarrow> RpcClient_BgpSessions c uBgp = (None, Some e))
   \<and> (commandError c uOspf ''show ospf3 overview'' Ospf3Rpc_zero = Some e
      \<longrightarrow> RpcClient_OspfAreas c uOspf = (None, Some e))
   \<and> (commandError c uIsis ''show isis adjacency'' IsisRpc_zero = Some e
      \<longrightarrow> RpcClient_IsisAdjancies c uIsis = (None, Some e))
   \<and> (commandError c uRoute ''show route summary'' RouteRpc_zero = Some e
      \<longrightarrow> RpcClient_RoutingTables c uRoute = (None, Some e))
   \<and> (commandError c uRe ''show chassis routing-engine'' RoutingEngineRpc_zero = Some e
      \<longrightarrow> RpcClient_RouteEngineStats c uRe = (None, Some e))
   \<and> (commandError c uEnv ''show chassis environment'' EnvironmentRpc_zero = Some e
      \<longrightarrow> RpcClient_EnvironmentItems rangeOrder c uEnv = (None, Some e))
   \<and> (commandError c uDiag ''show interfaces diagnostics optics'' InterfaceDiagnosticsRpc_zero
        = Some e
      \<longrightarrow> RpcClient_InterfaceDiagnostics ParseFloat c uDiag = (None, Some e))
   \<and> (commandError c uAlarm ''show system alarms'' AlarmRpc_zero = Some e
      \<longrightarrow> RpcClient_AlarmCounter c uAlarm = (None, Some e))
   \<and> (commandError c uAlarm ''show system alarms'' AlarmRpc_zero = None
        \<and> commandError c uAlarm ''show chassis alarms'' AlarmRpc_zero = Some e
      \<longrightarrow> RpcClient_AlarmCounter c uAlarm = (None, Some e))
   \<and> InterfaceCollector_Collect (stats, Some e) ch labelValues = (Some e, ch)
   \<and> (commandError c uIf ''show interfaces statistics detail'' InterfaceRpc_zero = Some e
      \<longrightarrow> InterfaceCollector_Collect (RpcClient_InterfaceStats c uIf) ch labelValues
            = (Some e, ch))"
proof (intro conjI impI)
  assume "RunCommand (conn c) (cmd @ '' | display xml'') = (b, Some e)"
  then show "commandError c xmlUnmarshal cmd obj = Some e"
    by (simp add: commandError_cases)
next
  assume "RunCommand (conn c) (cmd @ '' | display xml'') = (b, None)
        \<and> snd (xmlUnmarshal b obj) = Some e"
  then show "commandError c xmlUnmarshal cmd obj = Some e"
    by (simp add: commandError_cases)
qed (simp_all add: Collect_error InterfaceStats_error BgpSessions_error OspfAreas_error
      IsisAdjancies_error RoutingTables_error RouteEngineStats_error EnvironmentItems_error
      InterfaceDiagnostics_error AlarmCounter_error_first AlarmCounter_error_second
      Collect_datasource_error)

lemma commandError_dead:
  "commandError (clientOf deadConn) u cmd obj = Some (TransportError ''connection refused'')"
  by (simp add: commandError_cases clientOf_def deadConn_def)

lemma commandError_rejected:
  "commandError (clientOf echoConn) rejectReply cmd obj = Some (DecodeError ''unexpected EOF'')"
  by (simp add: commandError_cases clientOf_def echoConn_def rejectReply_def)

lemma commandError_half:
  "commandError (clientOf halfConn) (replyWith x) ''show system alarms'' obj = None"
  "commandError (clientOf halfConn) (replyWith x) ''show chassis alarms'' obj
     = Some (TransportError ''session closed'')"
  by (simp_all add: commandError_cases clientOf_def halfConn_def replyWith_def)

theorem errors_abort_without_records_witness:
  "commandError (clientOf deadConn) rejectReply ''show interfaces statistics detail''
       InterfaceRpc_zero = Some (TransportError ''connection refused'')
   \<and> RpcClient_InterfaceStats (clientOf deadConn) rejectReply
       = (None, Some (TransportError ''connection refused''))
   \<and> RpcClient_BgpSessions (clientOf deadConn) rejectReply
       = (None, Some (TransportError ''connection refused''))
   \<and> RpcClient_AlarmCounter (clientOf deadConn) rejectReply
       = (None, Some (TransportError ''connection refused''))
   \<and> InterfaceCollector_Collect (RpcClient_InterfaceStats (clientOf deadConn) rejectReply)
         emptyChan [''router1'']
       = (Some (TransportError ''connection refused''), emptyChan)
   \<and> commandError (clientOf echoConn) rejectReply ''show route summary'' RouteRpc_zero
       = Some (DecodeError ''unexpected EOF'')
   \<and> RpcClient_RoutingTables (clientOf echoConn) rejectReply
       = (None, Some (DecodeError ''unexpected EOF''))
   \<and> RpcClient_InterfaceDiagnostics (\<lambda>s. (0, None)) (clientOf echoConn) rejectReply
       = (None, Some (DecodeError ''unexpected EOF''))
   \<and> commandError (clientOf halfConn)
         (replyWith \<lparr>Details = [\<lparr>Class = ''Major'', AlarmDetails.Description = ''fan failure'',
                                  Type = ''Chassis''\<rparr>]\<rparr>)
         ''show system alarms'' AlarmRpc_zero = None
   \<and> commandError (clientOf halfConn)
         (replyWith \<lparr>Details = [\<lparr>Class = ''Major'', AlarmDetails.Description = ''fan failure'',
                                  Type = ''Chassis''\<rparr>]\<rparr>)
         ''show chassis alarms'' AlarmRpc_zero = Some (TransportError ''session closed'')
   \<and> RpcClient_AlarmCounter (clientOf halfConn)
         (replyWith \<lparr>Details = [\<lparr>Class = ''Major'', AlarmDetails.Description = ''fan failure'',
                                  Type = ''Chassis''\<rparr>]\<rparr>)
       = (None, Some (TransportError ''session closed''))"
proof -
  let ?dead = "TransportError ''connection refused''"
  let ?eof = "DecodeError ''unexpected EOF''"
  let ?alarms = "replyWith \<lparr>Details = [\<lparr>Class = ''Major'',
      AlarmDetails.Description = ''fan failure'', Type = ''Chassis''\<rparr>]\<rparr>"
  note dead = errors_abort_without_records[where c = "clientOf deadConn" and e = ?dead
      and cmd = "''show bgp summary''" and b = "[]" and xmlUnmarshal = rejectReply
      and obj = BgpRpc_zero and uIf = rejectReply and uBgp = rejectReply
      and uOspf = rejectReply and uIsis = rejectReply and uRoute = rejectReply
      and uRe = rejectReply and uEnv = rejectReply and rangeOrder = id and uDiag = rejectReply
      and ParseFloat = "\<lambda>s. (0, None)" and uAlarm = rejectReply and stats = None
      and ch = emptyChan and labelValues = "[''router1'']"]
  note eof = errors_abort_without_records[where c = "clientOf echoConn" and e = ?eof
      and cmd = "''show bgp summary''" and b = "[]" and xmlUnmarshal = rejectReply
      and obj = BgpRpc_zero and uIf = rejectReply and uBgp = rejectReply
      and uOspf = rejectReply and uIsis = rejectReply and uRoute = rejectReply
      and uRe = rejectReply and uEnv = rejectReply and rangeOrder = id and uDiag = rejectReply
      and ParseFloat = "\<lambda>s. (0, None)" and uAlarm = rejectReply and stats = None
      and ch = emptyChan and labelValues = "[''router1'']"]
  note half = errors_abort_without_records[where c = "clientOf halfConn"
      and e = "TransportError ''session closed''"
      and cmd = "''show bgp summary''" and b = "[]" and xmlUnmarshal = rejectReply
      and obj = BgpRpc_zero and uIf = rejectReply and uBgp = rejectReply
      and uOspf = rejectReply and uIsis = rejectReply and uRoute = rejectReply
      and uRe = rejectReply and uEnv = rejectReply and rangeOrder = id and uDiag = rejectReply
      and ParseFloat = "\<lambda>s. (0, None)" and uAlarm = ?alarms and stats = None
      and ch = emptyChan and labelValues = "[''router1'']"]
  have d: "RpcClient_InterfaceStats (clientOf deadConn) rejectReply = (None, Some ?dead)"
    "RpcClient_BgpSessions (clientOf deadConn) rejectReply = (None, Some ?dead)"
    "RpcClient_AlarmCounter (clientOf deadConn) rejectReply = (None, Some ?dead)"
    "InterfaceCollector_Collect (RpcClient_InterfaceStats (clientOf deadConn) rejectReply)
         emptyChan [''router1''] = (Some ?dead, emptyChan)"
    using dead by (simp_all add: commandError_dead)
  have e: "RpcClient_RoutingTables (clientOf echoConn) rejectReply = (None, Some ?eof)"
    "RpcClient_InterfaceDiagnostics (\<lambda>s. (0, None)) (clientOf echoConn) rejectReply
       = (None, Some ?eof)"
    using eof by (simp_all add: commandError_rejected)
  have h: "RpcClient_AlarmCounter (clientOf halfConn) ?alarms
       = (None, Some (TransportError ''session closed''))"
    using half by (simp add: commandError_half)
  show ?thesis
    by (simp add: d e h Collect_error commandError_dead commandError_rejected commandError_half)
qed

section \<open>Alarms: filtering and counting\<close>

lemma runCommandAndParse_alarmReplies:
  "conn c = echoConn \<Longrightarrow>
     runCommandAndParse c (alarmReplies sys chassis) ''show system alarms'' obj = (sys, None)"
  "conn c = echoConn \<Longrightarrow>
     runCommandAndParse c (alarmReplies sys chassis) ''show chassis alarms'' obj = (chassis, None)"
  by (simp_all add: runCommandAndParse_def echoConn_def alarmReplies_def)

lemma literalPattern_fan:
  "literalPattern ''fan'' ''fan failure''" "\<not> literalPattern ''fan'' ''psu warn''"
  "\<not> literalPattern ''fan'' ''Chassis''" "literalPattern ''fan'' ''fan tray''"
  "\<not> literalPattern ''fan'' ''temperature high''" "\<not> literalPattern ''fan'' ''link down''"
  "\<not> literalPattern ''fan'' ''Port''"
  by (simp_all add: literalPattern_def)

lemma shouldFilterAlarm_fanClient:
  "RpcClient_shouldFilterAlarm fanClient d
     = (literalPattern ''fan'' (AlarmDetails.Description d) \<or> literalPattern ''fan'' (Type d))"
  by (simp add: RpcClient_shouldFilterAlarm_def fanClient_def)

lemma conn_fanClient: "conn fanClient = echoConn"
  by (simp add: fanClient_def)

lemma fanExample_result:
  "RpcClient_AlarmCounter fanClient (alarmReplies fanExample noAlarms)
     = (Some \<lparr>RedCount = 0, YellowCount = 1\<rparr>, None)"
  by (simp add: AlarmCounter_result runCommandAndParse_alarmReplies[OF conn_fanClient]
      counted_def shouldFilterAlarm_fanClient fanExample_def noAlarms_def
      alarm_def literalPattern_fan float64_def)

lemma fanExample_red_never_one:
  assumes "conn c = echoConn"
  shows "RpcClient_AlarmCounter c (alarmReplies fanExample noAlarms)
           = (Some \<lparr>RedCount = 0, YellowCount = YellowCount (the (fst
                 (RpcClient_AlarmCounter c (alarmReplies fanExample noAlarms))))\<rparr>, None)
       \<or> RpcClient_AlarmCounter c (alarmReplies fanExample noAlarms)
           = (Some \<lparr>RedCount = 2, YellowCount = YellowCount (the (fst
                 (RpcClient_AlarmCounter c (alarmReplies fanExample noAlarms))))\<rparr>, None)"
  by (cases "RpcClient_shouldFilterAlarm c (alarm ''Major'' ''fan failure'' ''Chassis'')")
     (simp_all add: AlarmCounter_result runCommandAndParse_alarmReplies[OF assms]
        counted_def fanExample_def noAlarms_def alarm_def float64_def)

text \<open>
  C2, as the code has it. With a filter configured, when both alarm commands run and
  their replies decode, \<open>AlarmCounter\<close> returns one result over the details of both
  replies: the red count is the number of details of class "Major", the yellow count the
  number of details of class "Minor", among the details whose description and whose type
  the filter both fails to match; a detail is excluded exactly when the filter matches its
  description or its type, and details of another class are in neither count. The three
  details of the example, under the filter "fan", give red 0 and yellow 1: both "fan
  failure" alarms are excluded.
\<close>

theorem alarm_tallies_exclude_matches:
  assumes "alarmFilter c = Some re"
    and "runCommandAndParse c xmlUnmarshal ''show system alarms'' AlarmRpc_zero = (sys, None)"
    and "runCommandAndParse c xmlUnmarshal ''show chassis alarms'' AlarmRpc_zero = (chassis, None)"
  shows "RpcClient_AlarmCounter c xmlUnmarshal =
          (Some \<lparr>RedCount = float64 (int (length (filter
                     (\<lambda>d. \<not> (re (AlarmDetails.Description d) \<or> re (Type d)) \<and> Class d = ''Major'')
                     (Details sys @ Details chassis)))),
                 YellowCount = float64 (int (length (filter
                     (\<lambda>d. \<not> (re (AlarmDetails.Description d) \<or> re (Type d)) \<and> Class d = ''Minor'')
                     (Details sys @ Details chassis))))\<rparr>, None)
       \<and> RpcClient_shouldFilterAlarm c d = (re (AlarmDetails.Description d) \<or> re (Type d))
       \<and> RpcClient_AlarmCounter fanClient (alarmReplies fanExample noAlarms)
           = (Some \<lparr>RedCount = 0, YellowCount = 1\<rparr>, None)"
proof -
  have f: "\<And>d. RpcClient_shouldFilterAlarm c d = (re (AlarmDetails.Description d) \<or> re (Type d))"
    by (simp add: RpcClient_shouldFilterAlarm_def assms(1))
  show ?thesis
  proof (intro conjI)
    show "RpcClient_AlarmCounter fanClient (alarmReplies fanExample noAlarms)
            = (Some \<lparr>RedCount = 0, YellowCount = 1\<rparr>, None)"
      by (rule fanExample_result)
  qed (simp_all add: AlarmCounter_result assms(2,3) counted_def f)
qed

theorem alarm_tallies_exclude_matches_witness:
  "alarmFilter fanClient = Some (literalPattern ''fan'')
   \<and> runCommandAndParse fanClient
        (alarmReplies \<lparr>Details = [alarm ''Major'' ''fan failure'' ''Chassis'',
                                  alarm ''Minor'' ''psu warn'' ''Chassis'']\<rparr>
                      \<lparr>Details = [alarm ''Major'' ''temperature high'' ''fan tray'',
                                  alarm ''Major'' ''link down'' ''Port'']\<rparr>)
        ''show system alarms'' AlarmRpc_zero
       = (\<lparr>Details = [alarm ''Major'' ''fan failure'' ''Chassis'',
                      alarm ''Minor'' ''psu warn'' ''Chassis'']\<rparr>, None)
   \<and> runCommandAndParse fanClient
        (alarmReplies \<lparr>Details = [alarm ''Major'' ''fan failure'' ''Chassis'',
                                  alarm ''Minor'' ''psu warn'' ''Chassis'']\<rparr>
                      \<lparr>Details = [alarm ''Major'' ''temperature high'' ''fan tray'',
                                  alarm ''Major'' ''link down'' ''Port'']\<rparr>)
        ''show chassis alarms'' AlarmRpc_zero
       = (\<lparr>Details = [alarm ''Major'' ''temperature high'' ''fan tray'',
                      alarm ''Major'' ''link down'' ''Port'']\<rparr>, None)
   \<and> RpcClient_AlarmCounter fanClient
        (alarmReplies \<lparr>Details = [alarm ''Major'' ''fan failure'' ''Chassis'',
                                  alarm ''Minor'' ''psu warn'' ''Chassis'']\<rparr>
                      \<lparr>Details = [alarm ''Major'' ''temperature high'' ''fan tray'',
                                  alarm ''Major'' ''link down'' ''Port'']\<rparr>)
       = (Some \<lparr>RedCount = 1, YellowCount = 1\<rparr>, None)"
proof -
  let ?sys = "\<lparr>Details = [alarm ''Major'' ''fan failure'' ''Chassis'',
                          alarm ''Minor'' ''psu warn'' ''Chassis'']\<rparr>"
  let ?chassis = "\<lparr>Details = [alarm ''Major'' ''temperature high'' ''fan tray'',
                              alarm ''Major'' ''link down'' ''Port'']\<rparr>"
  have h1: "alarmFilter fanClient = Some (literalPattern ''fan'')"
    by (simp add: fanClient_def)
  have cn: "conn fanClient = echoConn"
    by (simp add: fanClient_def)
  note h2 = runCommandAndParse_alarmReplies(1)[OF cn, of ?sys ?chassis AlarmRpc_zero]
  note h3 = runCommandAndParse_alarmReplies(2)[OF cn, of ?sys ?chassis AlarmRpc_zero]
  from alarm_tallies_exclude_matches[OF h1 h2 h3]
  have "RpcClient_AlarmCounter fanClient (alarmReplies ?sys ?chassis)
          = (Some \<lparr>RedCount = 1, YellowCount = 1\<rparr>, None)"
    by (simp add: alarm_def literalPattern_fan float64_def)
  with h1 h2 h3 show ?thesis by simp
qed

text \<open>
  C2 as stated fails on its example: the result is red 0 and yellow 1, not red 1 and
  yellow 1. Two details with the same description and type are excluded together or counted
  together, so no filter gives red 1.
\<close>

theorem alarm_example_counterexample:
  "RpcClient_AlarmCounter fanClient (alarmReplies fanExample noAlarms)
     = (Some \<lparr>RedCount = 0, YellowCount = 1\<rparr>, None)
   \<and> RpcClient_AlarmCounter fanClient (alarmReplies fanExample noAlarms)
     \<noteq> (Some \<lparr>RedCount = 1, YellowCount = 1\<rparr>, None)"
  by (simp add: fanExample_result)


text \<open>
  C10. \<open>NewClient\<close> with the empty filter text returns a client without a filter,
  whatever \<open>regexp.MustCompile\<close> would do; for that client \<open>shouldFilterAlarm\<close> is
  false for every alarm detail, and \<open>AlarmCounter\<close>, when both commands run and their
  replies decode, counts every detail of class "Major" as red and every detail of class
  "Minor" as yellow.
\<close>

theorem empty_filter_excludes_nothing:
  "NewClient compile ssh dbg [] = Some \<lparr>conn = ssh, debug = dbg, alarmFilter = None\<rparr>
   \<and> (NewClient compile ssh dbg [] = Some c \<longrightarrow>
        alarmFilter c = None
      \<and> \<not> RpcClient_shouldFilterAlarm c d
      \<and> (runCommandAndParse c xmlUnmarshal ''show system alarms'' AlarmRpc_zero = (sys, None)
         \<and> runCommandAndParse c xmlUnmarshal ''show chassis alarms'' AlarmRpc_zero = (chassis, None)
         \<longrightarrow> RpcClient_AlarmCounter c xmlUnmarshal =
              (Some \<lparr>RedCount = float64 (int (length (filter (\<lambda>d. Class d = ''Major'')
                                                    (Details sys @ Details chassis)))),
                     YellowCount = float64 (int (length (filter (\<lambda>d. Class d = ''Minor'')
                                                    (Details sys @ Details chassis))))\<rparr>,
               None)))"
proof (intro conjI impI)
  show n: "NewClient compile ssh dbg [] = Some \<lparr>conn = ssh, debug = dbg, alarmFilter = None\<rparr>"
    by (simp add: NewClient_def)
  assume "NewClient compile ssh dbg [] = Some c"
  with n have c: "c = \<lparr>conn = ssh, debug = dbg, alarmFilter = None\<rparr>" by simp
  then show "alarmFilter c = None" by simp
  have f: "\<And>d. \<not> RpcClient_shouldFilterAlarm c d"
    by (simp add: RpcClient_shouldFilterAlarm_def c)
  then show "\<not> RpcClient_shouldFilterAlarm c d" .
  assume "runCommandAndParse c xmlUnmarshal ''show system alarms'' AlarmRpc_zero = (sys, None)
         \<and> runCommandAndParse c xmlUnmarshal ''show chassis alarms'' AlarmRpc_zero = (chassis, None)"
  then show "RpcClient_AlarmCounter c xmlUnmarshal =
              (Some \<lparr>RedCount = float64 (int (length (filter (\<lambda>d. Class d = ''Major'')
                                                    (Details sys @ Details chassis)))),
                     YellowCount = float64 (int (length (filter (\<lambda>d. Class d = ''Minor'')
                                                    (Details sys @ Details chassis))))\<rparr>,
               None)"
    by (simp add: AlarmCounter_result counted_def f)
qed

theorem empty_filter_excludes_nothing_witness:
  "NewClient (\<lambda>p. Some (literalPattern p)) echoConn False [] = Some (clientOf echoConn)
   \<and> alarmFilter (clientOf echoConn) = None
   \<and> \<not> RpcClient_shouldFilterAlarm (clientOf echoConn) (alarm ''Major'' ''fan failure'' ''Chassis'')
   \<and> runCommandAndParse (clientOf echoConn) (alarmReplies fanExample noAlarms)
        ''show system alarms'' AlarmRpc_zero = (fanExample, None)
   \<and> runCommandAndParse (clientOf echoConn) (alarmReplies fanExample noAlarms)
        ''show chassis alarms'' AlarmRpc_zero = (noAlarms, None)
   \<and> RpcClient_AlarmCounter (clientOf echoConn) (alarmReplies fanExample noAlarms)
       = (Some \<lparr>RedCount = 2, YellowCount = 1\<rparr>, None)"
proof -
  have n: "NewClient (\<lambda>p. Some (literalPattern p)) echoConn False [] = Some (clientOf echoConn)"
    by (simp add: NewClient_def clientOf_def)
  have cn: "conn (clientOf echoConn) = echoConn"
    by (simp add: clientOf_def)
  note h = runCommandAndParse_alarmReplies[OF cn, of fanExample noAlarms AlarmRpc_zero]
  note inst = empty_filter_excludes_nothing[of "\<lambda>p. Some (literalPattern p)" echoConn False
      "clientOf echoConn" "alarm ''Major'' ''fan failure'' ''Chassis''"
      "alarmReplies fanExample noAlarms" fanExample noAlarms]
  from inst n h
  have a: "alarmFilter (clientOf echoConn) = None"
    and b: "\<not> RpcClient_shouldFilterAlarm (clientOf echoConn) (alarm ''Major'' ''fan failure'' ''Chassis'')"
    and r: "RpcClient_AlarmCounter (clientOf echoConn) (alarmReplies fanExample noAlarms) =
              (Some \<lparr>RedCount = float64 (int (length (filter (\<lambda>d. Class d = ''Major'')
                                                    (Details fanExample @ Details noAlarms)))),
                     YellowCount = float64 (int (length (filter (\<lambda>d. Class d = ''Minor'')
                                                    (Details fanExample @ Details noAlarms))))\<rparr>,
               None)"
    by blast+
  have "RpcClient_AlarmCounter (clientOf echoConn) (alarmReplies fanExample noAlarms)
       = (Some \<lparr>RedCount = 2, YellowCount = 1\<rparr>, None)"
    unfolding r by (simp add: fanExample_def noAlarms_def alarm_def float64_def)
  with n a b h show ?thesis by simp
qed

section \<open>Routing tables\<close>

lemma protocolsLoop_append:
  "protocolsLoop protos t =
     t\<lparr>RoutingTable.Protocols := RoutingTable.Protocols t @ map protocolRouteCount protos\<rparr>"
  by (induction protos arbitrary: t) simp_all

lemma tablesLoop_append: "tablesLoop rest tables = tables @ map routingTable rest"
  by (induction rest arbitrary: tables) simp_all

lemma routingTable_eq:
  "routingTable table =
     \<lparr>RoutingTable.Name = RouteTable.Name table,
      RoutingTable.MaxRoutes = float64 (RouteTable.MaxRoutes table),
      RoutingTable.ActiveRoutes = float64 (RouteTable.ActiveRoutes table),
      RoutingTable.TotalRoutes = float64 (RouteTable.TotalRoutes table),
      RoutingTable.Protocols = map protocolRouteCount (RouteTable.Protocols table)\<rparr>"
  by (simp add: routingTable_def protocolsLoop_append)

text \<open>
  C8. When the command runs and its reply decodes to the envelope \<open>x\<close>,
  \<open>RoutingTables\<close> returns one record for each table of \<open>x\<close>, in the order of
  \<open>x\<close>. The record of a table has the name of the table, and its protocol list is the
  list of the protocol entries of the table, each converted on its own, in the order of the
  envelope: the names of the protocols of the record are the names of the protocols of the
  table, in the same order.
\<close>

theorem routing_tables_keep_protocol_order:
  assumes "runCommandAndParse c xmlUnmarshal ''show route summary'' RouteRpc_zero = (x, None)"
  shows "RpcClient_RoutingTables c xmlUnmarshal = (Some (map routingTable (Tables x)), None)
       \<and> RoutingTable.Name (routingTable table) = RouteTable.Name table
       \<and> RoutingTable.Protocols (routingTable table)
           = map protocolRouteCount (RouteTable.Protocols table)
       \<and> map ProtocolRouteCount.Name (RoutingTable.Protocols (routingTable table))
           = map RouteTableProtocol.Name (RouteTable.Protocols table)
       \<and> protocolRouteCount proto =
           \<lparr>ProtocolRouteCount.Name = RouteTableProtocol.Name proto,
            ProtocolRouteCount.Routes = float64 (RouteTableProtocol.Routes proto),
            ProtocolRouteCount.ActiveRoutes = float64 (RouteTableProtocol.ActiveRoutes proto)\<rparr>"
proof (intro conjI)
  show "RpcClient_RoutingTables c xmlUnmarshal = (Some (map routingTable (Tables x)), None)"
    by (simp add: RpcClient_RoutingTables_def assms tablesLoop_append)
  show "map ProtocolRouteCount.Name (RoutingTable.Protocols (routingTable table))
           = map RouteTableProtocol.Name (RouteTable.Protocols table)"
    by (simp add: routingTable_eq protocolRouteCount_def comp_def)
qed (simp_all add: routingTable_eq protocolRouteCount_def)

theorem routing_tables_keep_protocol_order_witness:
  "runCommandAndParse (clientOf echoConn) (replyWith \<lparr>Tables = [exampleTable]\<rparr>)
      ''show route summary'' RouteRpc_zero = (\<lparr>Tables = [exampleTable]\<rparr>, None)
   \<and> RpcClient_RoutingTables (clientOf echoConn) (replyWith \<lparr>Tables = [exampleTable]\<rparr>)
       = (Some [\<lparr>RoutingTable.Name = ''inet.0'', RoutingTable.MaxRoutes = 0,
                 RoutingTable.ActiveRoutes = 155, RoutingTable.TotalRoutes = 205,
                 RoutingTable.Protocols =
                   [\<lparr>ProtocolRouteCount.Name = ''direct'', ProtocolRouteCount.Routes = 5,
                     ProtocolRouteCount.ActiveRoutes = 5\<rparr>,
                    \<lparr>ProtocolRouteCount.Name = ''bgp'', ProtocolRouteCount.Routes = 200,
                     ProtocolRouteCount.ActiveRoutes = 150\<rparr>]\<rparr>], None)"
proof -
  have h: "runCommandAndParse (clientOf echoConn) (replyWith \<lparr>Tables = [exampleTable]\<rparr>)
      ''show route summary'' RouteRpc_zero = (\<lparr>Tables = [exampleTable]\<rparr>, None)"
    by (rule runCommandAndParse_echo)
  from routing_tables_keep_protocol_order[OF h, of exampleTable]
  have r: "RpcClient_RoutingTables (clientOf echoConn) (replyWith \<lparr>Tables = [exampleTable]\<rparr>)
             = (Some (map routingTable (Tables \<lparr>Tables = [exampleTable]\<rparr>)), None)"
    by blast
  show ?thesis
    unfolding r using h by (simp add: routingTable_eq protocolRouteCount_def exampleTable_def float64_def)
qed

section \<open>ISIS adjacencies\<close>

lemma adjacenciesLoop_counts:
  "adjacenciesLoop adjs (up, total') =
     (up + int (length (filter (\<lambda>a. AdjacencyState a = ''Up'') adjs)), total' + int (length adjs))"
  by (induction adjs arbitrary: up total') simp_all

text \<open>
  C9. When the command runs and its reply decodes to the envelope \<open>x\<close>,
  \<open>IsisAdjancies\<close> returns an aggregate whose total is the number of adjacency entries
  of \<open>x\<close> and whose up count is the number of those entries whose state is "Up";
  the up count is at least zero and at most the total.
\<close>

theorem isis_up_at_most_total:
  assumes "runCommandAndParse c xmlUnmarshal ''show isis adjacency'' IsisRpc_zero = (x, None)"
  shows "\<exists>r. RpcClient_IsisAdjancies c xmlUnmarshal = (Some r, None)
           \<and> Total r = real (length (Adjacencies x))
           \<and> Up r = real (length (filter (\<lambda>a. AdjacencyState a = ''Up'') (Adjacencies x)))
           \<and> 0 \<le> Up r \<and> Up r \<le> Total r"
proof -
  have le: "length (filter (\<lambda>a. AdjacencyState a = ''Up'') (Adjacencies x)) \<le> length (Adjacencies x)"
    by (rule length_filter_le)
  have "RpcClient_IsisAdjancies c xmlUnmarshal =
          (Some \<lparr>Up = real (length (filter (\<lambda>a. AdjacencyState a = ''Up'') (Adjacencies x))),
                 Total = real (length (Adjacencies x))\<rparr>, None)"
    by (simp add: RpcClient_IsisAdjancies_def assms adjacenciesLoop_counts float64_def)
  then show ?thesis using le by simp
qed

theorem isis_up_at_most_total_witness:
  "runCommandAndParse (clientOf echoConn) (replyWith exampleAdjacencies)
      ''show isis adjacency'' IsisRpc_zero = (exampleAdjacencies, None)
   \<and> RpcClient_IsisAdjancies (clientOf echoConn) (replyWith exampleAdjacencies)
       = (Some \<lparr>Up = 2, Total = 3\<rparr>, None)"
proof -
  have h: "runCommandAndParse (clientOf echoConn) (replyWith exampleAdjacencies)
      ''show isis adjacency'' IsisRpc_zero = (exampleAdjacencies, None)"
    by (rule runCommandAndParse_echo)
  from isis_up_at_most_total[OF h]
  obtain r where r: "RpcClient_IsisAdjancies (clientOf echoConn) (replyWith exampleAdjacencies)
        = (Some r, None)"
    and t: "Total r = real (length (Adjacencies exampleAdjacencies))"
    and u: "Up r = real (length (filter (\<lambda>a. AdjacencyState a = ''Up'')
                  (Adjacencies exampleAdjacencies)))"
    by blast
  have "r = \<lparr>Up = 2, Total = 3\<rparr>"
    using t u by (cases r) (simp add: exampleAdjacencies_def)
  with h r show ?thesis by simp
qed

section \<open>Optical diagnostics\<close>

lemma diagnosticsLoop_append:
  "diagnosticsLoop ParseFloat diags diagnostics =
     diagnostics @ concat (map (diagnosticsRecords ParseFloat) diags)"
  by (induction diags arbitrary: diagnostics) (simp_all add: diagnosticsRecords_def)

lemma InterfaceDiagnostics_result:
  "runCommandAndParse c xmlUnmarshal ''show interfaces diagnostics optics''
       InterfaceDiagnosticsRpc_zero = (x, None) \<Longrightarrow>
   RpcClient_InterfaceDiagnostics ParseFloat c xmlUnmarshal
     = (Some (concat (map (diagnosticsRecords ParseFloat) (DiagInterfaces x))), None)"
  by (simp add: RpcClient_InterfaceDiagnostics_def diagnosticsLoop_append)

lemma diagnosticsRecord_eq:
  "diagnosticsRecord ParseFloat diag =
     \<lparr>InterfaceDiagnostics.Name = PhyDiagInterface.Name diag,
      InterfaceDiagnostics.LaserBiasCurrent = OpticsDiagnostics.LaserBiasCurrent (Diagnostics diag),
      InterfaceDiagnostics.LaserOutputPower = OpticsDiagnostics.LaserOutputPower (Diagnostics diag),
      InterfaceDiagnostics.LaserOutputPowerDbm =
        dbmOrZero ParseFloat (OpticsDiagnostics.LaserOutputPowerDbm (Diagnostics diag)),
      InterfaceDiagnostics.ModuleTemperature = OpticsDiagnostics.ModuleTemperature (Diagnostics diag),
      InterfaceDiagnostics.ModuleVoltage =
        (if OpticsDiagnostics.ModuleVoltage (Diagnostics diag) > 0
         then OpticsDiagnostics.ModuleVoltage (Diagnostics diag) else 0),
      InterfaceDiagnostics.RxSignalAvgOpticalPower =
        (if OpticsDiagnostics.ModuleVoltage (Diagnostics diag) > 0
         then OpticsDiagnostics.RxSignalAvgOpticalPower (Diagnostics diag) else 0),
      InterfaceDiagnostics.RxSignalAvgOpticalPowerDbm =
        (if OpticsDiagnostics.ModuleVoltage (Diagnostics diag) > 0
         then dbmOrZero ParseFloat (OpticsDiagnostics.RxSignalAvgOpticalPowerDbm (Diagnostics diag))
         else 0),
      InterfaceDiagnostics.LaserRxOpticalPower =
        (if OpticsDiagnostics.ModuleVoltage (Diagnostics diag) > 0 then 0
         else OpticsDiagnostics.LaserRxOpticalPower (Diagnostics diag)),
      InterfaceDiagnostics.LaserRxOpticalPowerDbm =
        (if OpticsDiagnostics.ModuleVoltage (Diagnostics diag) > 0 then 0
         else dbmOrZero ParseFloat (OpticsDiagnostics.LaserRxOpticalPowerDbm (Diagnostics diag)))\<rparr>"
  by (simp add: diagnosticsRecord_def dbmOrZero_def Let_def split: prod.splits option.splits)

lemma dbmOrZero_failed: "snd (ParseFloat s) \<noteq> None \<Longrightarrow> dbmOrZero ParseFloat s = 0"
  by (auto simp: dbmOrZero_def split: prod.splits option.splits)


lemma dbmOrZero_example:
  "dbmOrZero exampleParseFloat ''- Inf'' = 0" "dbmOrZero exampleParseFloat ''-2.5'' = - 5 / 2"
  "dbmOrZero exampleParseFloat ''1.5'' = 3 / 2"
  by (simp_all add: dbmOrZero_def exampleParseFloat_def)

text \<open>
  C3, as the code has it. When the command runs and its reply decodes to the envelope
  \<open>x\<close>, \<open>InterfaceDiagnostics\<close> returns, for the entries of \<open>x\<close> in their
  order, no record for an entry whose marker is "N/A" and one record for every other entry.
  In that record exactly one of the two branches has assigned its fields: when the module
  voltage of the entry is greater than zero, the module voltage and the RX average optical
  power are those of the entry, the dBm value of the RX average optical power is the parsed
  text of the entry (zero where the parse fails), and the laser RX optical power and its dBm
  value are zero; otherwise the laser RX optical power is that of the entry, its dBm value
  is the parsed text (zero where the parse fails), and the RX average optical power, its
  dBm value and the module voltage are zero. No record has a value other than zero in both
  representations. The values a branch assigns may be zero themselves.
\<close>

theorem diagnostics_one_rx_representation:
  assumes "runCommandAndParse c xmlUnmarshal ''show interfaces diagnostics optics''
             InterfaceDiagnosticsRpc_zero = (x, None)"
  shows "RpcClient_InterfaceDiagnostics ParseFloat c xmlUnmarshal
           = (Some (concat (map (diagnosticsRecords ParseFloat) (DiagInterfaces x))), None)
       \<and> (NA (Diagnostics diag) = ''N/A'' \<longrightarrow> diagnosticsRecords ParseFloat diag = [])
       \<and> (NA (Diagnostics diag) \<noteq> ''N/A'' \<longrightarrow>
            diagnosticsRecords ParseFloat diag = [diagnosticsRecord ParseFloat diag])
       \<and> (OpticsDiagnostics.ModuleVoltage (Diagnostics diag) > 0 \<longrightarrow>
            InterfaceDiagnostics.ModuleVoltage (diagnosticsRecord ParseFloat diag)
              = OpticsDiagnostics.ModuleVoltage (Diagnostics diag)
          \<and> InterfaceDiagnostics.RxSignalAvgOpticalPower (diagnosticsRecord ParseFloat diag)
              = OpticsDiagnostics.RxSignalAvgOpticalPower (Diagnostics diag)
          \<and> InterfaceDiagnostics.RxSignalAvgOpticalPowerDbm (diagnosticsRecord ParseFloat diag)
              = dbmOrZero ParseFloat (OpticsDiagnostics.RxSignalAvgOpticalPowerDbm (Diagnostics diag))
          \<and> InterfaceDiagnostics.LaserRxOpticalPower (diagnosticsRecord ParseFloat diag) = 0
          \<and> InterfaceDiagnostics.LaserRxOpticalPowerDbm (diagnosticsRecord ParseFloat diag) = 0)
       \<and> (\<not> OpticsDiagnostics.ModuleVoltage (Diagnostics diag) > 0 \<longrightarrow>
            InterfaceDiagnostics.LaserRxOpticalPower (diagnosticsRecord ParseFloat diag)
              = OpticsDiagnostics.LaserRxOpticalPower (Diagnostics diag)
          \<and> InterfaceDiagnostics.LaserRxOpticalPowerDbm (diagnosticsRecord ParseFloat diag)
              = dbmOrZero ParseFloat (OpticsDiagnostics.LaserRxOpticalPowerDbm (Diagnostics diag))
          \<and> InterfaceDiagnostics.RxSignalAvgOpticalPower (diagnosticsRecord ParseFloat diag) = 0
          \<and> InterfaceDiagnostics.RxSignalAvgOpticalPowerDbm (diagnosticsRecord ParseFloat diag) = 0
          \<and> InterfaceDiagnostics.ModuleVoltage (diagnosticsRecord ParseFloat diag) = 0)
       \<and> \<not> ((InterfaceDiagnostics.RxSignalAvgOpticalPower (diagnosticsRecord ParseFloat diag) \<noteq> 0
              \<or> InterfaceDiagnostics.RxSignalAvgOpticalPowerDbm (diagnosticsRecord ParseFloat diag) \<noteq> 0)
            \<and> (InterfaceDiagnostics.LaserRxOpticalPower (diagnosticsRecord ParseFloat diag) \<noteq> 0
              \<or> InterfaceDiagnostics.LaserRxOpticalPowerDbm (diagnosticsRecord ParseFloat diag) \<noteq> 0))
       \<and> dbmOrZero ParseFloat s = (case ParseFloat s of (f, None) \<Rightarrow> f | (f, Some e) \<Rightarrow> 0)"
proof (intro conjI impI)
  show "RpcClient_InterfaceDiagnostics ParseFloat c xmlUnmarshal
           = (Some (concat (map (diagnosticsRecords ParseFloat) (DiagInterfaces x))), None)"
    using assms by (rule InterfaceDiagnostics_result)
  show "dbmOrZero ParseFloat s = (case ParseFloat s of (f, None) \<Rightarrow> f | (f, Some e) \<Rightarrow> 0)"
    by (rule dbmOrZero_def)
qed (simp_all add: diagnosticsRecords_def diagnosticsRecord_eq)

theorem diagnostics_one_rx_representation_witness:
  "runCommandAndParse (clientOf echoConn)
      (replyWith \<lparr>DiagInterfaces = [naDiag, voltDiag, laserDiag]\<rparr>)
      ''show interfaces diagnostics optics'' InterfaceDiagnosticsRpc_zero
     = (\<lparr>DiagInterfaces = [naDiag, voltDiag, laserDiag]\<rparr>, None)
   \<and> NA (Diagnostics naDiag) = ''N/A''
   \<and> NA (Diagnostics voltDiag) \<noteq> ''N/A''
   \<and> OpticsDiagnostics.ModuleVoltage (Diagnostics voltDiag) > 0
   \<and> \<not> OpticsDiagnostics.ModuleVoltage (Diagnostics laserDiag) > 0
   \<and> RpcClient_InterfaceDiagnostics exampleParseFloat (clientOf echoConn)
        (replyWith \<lparr>DiagInterfaces = [naDiag, voltDiag, laserDiag]\<rparr>)
       = (Some [\<lparr>InterfaceDiagnostics.Name = ''xe-0/0/0'',
                 InterfaceDiagnostics.LaserBiasCurrent = 6,
                 InterfaceDiagnostics.LaserOutputPower = 0,
                 InterfaceDiagnostics.LaserOutputPowerDbm = 0,
                 InterfaceDiagnostics.ModuleTemperature = 35,
                 InterfaceDiagnostics.ModuleVoltage = 3,
                 InterfaceDiagnostics.RxSignalAvgOpticalPower = 1 / 2,
                 InterfaceDiagnostics.RxSignalAvgOpticalPowerDbm = - 5 / 2,
                 InterfaceDiagnostics.LaserRxOpticalPower = 0,
                 InterfaceDiagnostics.LaserRxOpticalPowerDbm = 0\<rparr>,
                \<lparr>InterfaceDiagnostics.Name = ''et-0/0/1'',
                 InterfaceDiagnostics.LaserBiasCurrent = 6,
                 InterfaceDiagnostics.LaserOutputPower = 1,
                 InterfaceDiagnostics.LaserOutputPowerDbm = 3 / 2,
                 InterfaceDiagnostics.ModuleTemperature = 35,
                 InterfaceDiagnostics.ModuleVoltage = 0,
                 InterfaceDiagnostics.RxSignalAvgOpticalPower = 0,
                 InterfaceDiagnostics.RxSignalAvgOpticalPowerDbm = 0,
                 InterfaceDiagnostics.LaserRxOpticalPower = 1 / 2,
                 InterfaceDiagnostics.LaserRxOpticalPowerDbm = 0\<rparr>], None)"
proof -
  let ?x = "\<lparr>DiagInterfaces = [naDiag, voltDiag, laserDiag]\<rparr>"
  have h: "runCommandAndParse (clientOf echoConn) (replyWith ?x)
      ''show interfaces diagnostics optics'' InterfaceDiagnosticsRpc_zero = (?x, None)"
    by (rule runCommandAndParse_echo)
  have pre: "NA (Diagnostics naDiag) = ''N/A''" "NA (Diagnostics voltDiag) \<noteq> ''N/A''"
    "OpticsDiagnostics.ModuleVoltage (Diagnostics voltDiag) > 0"
    "\<not> OpticsDiagnostics.ModuleVoltage (Diagnostics laserDiag) > 0"
    by (simp_all add: naDiag_def voltDiag_def laserDiag_def)
  from diagnostics_one_rx_representation[OF h, of exampleParseFloat]
  have r: "RpcClient_InterfaceDiagnostics exampleParseFloat (clientOf echoConn) (replyWith ?x)
           = (Some (concat (map (diagnosticsRecords exampleParseFloat) (DiagInterfaces ?x))), None)"
    by blast
  have pf: "dbmOrZero exampleParseFloat ''- Inf'' = 0" "dbmOrZero exampleParseFloat ''-2.5'' = - 5 / 2"
    "dbmOrZero exampleParseFloat ''1.5'' = 3 / 2"
    by (simp_all add: dbmOrZero_def exampleParseFloat_def)
  have recs: "diagnosticsRecords exampleParseFloat naDiag = []"
    "diagnosticsRecords exampleParseFloat voltDiag = [diagnosticsRecord exampleParseFloat voltDiag]"
    "diagnosticsRecords exampleParseFloat laserDiag = [diagnosticsRecord exampleParseFloat laserDiag]"
    by (simp_all add: diagnosticsRecords_def naDiag_def voltDiag_def laserDiag_def)
  have v: "diagnosticsRecord exampleParseFloat voltDiag =
       \<lparr>InterfaceDiagnostics.Name = ''xe-0/0/0'',
                 InterfaceDiagnostics.LaserBiasCurrent = 6,
                 InterfaceDiagnostics.LaserOutputPower = 0,
                 InterfaceDiagnostics.LaserOutputPowerDbm = 0,
                 InterfaceDiagnostics.ModuleTemperature = 35,
                 InterfaceDiagnostics.ModuleVoltage = 3,
                 InterfaceDiagnostics.RxSignalAvgOpticalPower = 1 / 2,
                 InterfaceDiagnostics.RxSignalAvgOpticalPowerDbm = - 5 / 2,
                 InterfaceDiagnostics.LaserRxOpticalPower = 0,
                 InterfaceDiagnostics.LaserRxOpticalPowerDbm = 0\<rparr>"
    by (simp add: diagnosticsRecord_eq voltDiag_def pf)
  have l: "diagnosticsRecord exampleParseFloat laserDiag =
       \<lparr>InterfaceDiagnostics.Name = ''et-0/0/1'',
                 InterfaceDiagnostics.LaserBiasCurrent = 6,
                 InterfaceDiagnostics.LaserOutputPower = 1,
                 InterfaceDiagnostics.LaserOutputPowerDbm = 3 / 2,
                 InterfaceDiagnostics.ModuleTemperature = 35,
                 InterfaceDiagnostics.ModuleVoltage = 0,
                 InterfaceDiagnostics.RxSignalAvgOpticalPower = 0,
                 InterfaceDiagnostics.RxSignalAvgOpticalPowerDbm = 0,
                 InterfaceDiagnostics.LaserRxOpticalPower = 1 / 2,
                 InterfaceDiagnostics.LaserRxOpticalPowerDbm = 0\<rparr>"
    by (simp add: diagnosticsRecord_eq laserDiag_def pf)
  show ?thesis
    unfolding r using h pre by (simp add: recs v l)
qed

text \<open>
  C3 as stated fails in its "never neither": an entry that is not skipped, reports no
  module voltage, a laser RX optical power of zero and the dBm text "- Inf" gives a record
  in which the fields of both representations are all zero.
\<close>

theorem diagnostics_neither_counterexample:
  "NA (Diagnostics darkDiag) \<noteq> ''N/A''
   \<and> RpcClient_InterfaceDiagnostics exampleParseFloat (clientOf echoConn)
        (replyWith \<lparr>DiagInterfaces = [darkDiag]\<rparr>)
       = (Some [\<lparr>InterfaceDiagnostics.Name = ''xe-0/0/3'',
                 InterfaceDiagnostics.LaserBiasCurrent = 6,
                 InterfaceDiagnostics.LaserOutputPower = 1,
                 InterfaceDiagnostics.LaserOutputPowerDbm = 3 / 2,
                 InterfaceDiagnostics.ModuleTemperature = 35,
                 InterfaceDiagnostics.ModuleVoltage = 0,
                 InterfaceDiagnostics.RxSignalAvgOpticalPower = 0,
                 InterfaceDiagnostics.RxSignalAvgOpticalPowerDbm = 0,
                 InterfaceDiagnostics.LaserRxOpticalPower = 0,
                 InterfaceDiagnostics.LaserRxOpticalPowerDbm = 0\<rparr>], None)"
proof -
  have r: "RpcClient_InterfaceDiagnostics exampleParseFloat (clientOf echoConn)
        (replyWith \<lparr>DiagInterfaces = [darkDiag]\<rparr>)
      = (Some (concat (map (diagnosticsRecords exampleParseFloat)
                 (DiagInterfaces \<lparr>DiagInterfaces = [darkDiag]\<rparr>))), None)"
    by (rule InterfaceDiagnostics_result) (rule runCommandAndParse_echo)
  show ?thesis
    unfolding r
    by (simp add: diagnosticsRecords_def diagnosticsRecord_eq darkDiag_def dbmOrZero_example)
qed

text \<open>
  C7. When the command runs and its reply decodes to the envelope \<open>x\<close>, for every
  entry of \<open>x\<close> that is not skipped, \<open>InterfaceDiagnostics\<close> returns records and
  no error, and the record of the entry is among them. That record has the name, the laser
  bias current, the laser output power and the module temperature of the entry, the RX
  fields of the branch the module voltage selects, and for each dBm field the parsed value
  of its text where the parse succeeds and zero where it fails: a parse failure leaves that
  one field at zero and changes nothing else.
\<close>

theorem dbm_parse_failure_is_silent:
  assumes "runCommandAndParse c xmlUnmarshal ''show interfaces diagnostics optics''
             InterfaceDiagnosticsRpc_zero = (x, None)"
    and "diag \<in> set (DiagInterfaces x)"
    and "NA (Diagnostics diag) \<noteq> ''N/A''"
  shows "\<exists>recs. RpcClient_InterfaceDiagnostics ParseFloat c xmlUnmarshal = (Some recs, None)
         \<and> diagnosticsRecord ParseFloat diag \<in> set recs
         \<and> diagnosticsRecord ParseFloat diag =
             \<lparr>InterfaceDiagnostics.Name = PhyDiagInterface.Name diag,
              InterfaceDiagnostics.LaserBiasCurrent =
                OpticsDiagnostics.LaserBiasCurrent (Diagnostics diag),
              InterfaceDiagnostics.LaserOutputPower =
                OpticsDiagnostics.LaserOutputPower (Diagnostics diag),
              InterfaceDiagnostics.LaserOutputPowerDbm =
                (case ParseFloat (OpticsDiagnostics.LaserOutputPowerDbm (Diagnostics diag)) of
                   (f, None) \<Rightarrow> f | (f, Some e) \<Rightarrow> 0),
              InterfaceDiagnostics.ModuleTemperature =
                OpticsDiagnostics.ModuleTemperature (Diagnostics diag),
              InterfaceDiagnostics.ModuleVoltage =
                (if OpticsDiagnostics.ModuleVoltage (Diagnostics diag) > 0
                 then OpticsDiagnostics.ModuleVoltage (Diagnostics diag) else 0),
              InterfaceDiagnostics.RxSignalAvgOpticalPower =
                (if OpticsDiagnostics.ModuleVoltage (Diagnostics diag) > 0
                 then OpticsDiagnostics.RxSignalAvgOpticalPower (Diagnostics diag) else 0),
              InterfaceDiagnostics.RxSignalAvgOpticalPowerDbm =
                (if OpticsDiagnostics.ModuleVoltage (Diagnostics diag) > 0
                 then (case ParseFloat
                              (OpticsDiagnostics.RxSignalAvgOpticalPowerDbm (Diagnostics diag)) of
                         (f, None) \<Rightarrow> f | (f, Some e) \<Rightarrow> 0)
                 else 0),
              InterfaceDiagnostics.LaserRxOpticalPower =
                (if OpticsDiagnostics.ModuleVoltage (Diagnostics diag) > 0 then 0
                 else OpticsDiagnostics.LaserRxOpticalPower (Diagnostics diag)),
              InterfaceDiagnostics.LaserRxOpticalPowerDbm =
                (if OpticsDiagnostics.ModuleVoltage (Diagnostics diag) > 0 then 0
                 else (case ParseFloat
                              (OpticsDiagnostics.LaserRxOpticalPowerDbm (Diagnostics diag)) of
                         (f, None) \<Rightarrow> f | (f, Some e) \<Rightarrow> 0))\<rparr>
         \<and> (snd (ParseFloat (OpticsDiagnostics.LaserOutputPowerDbm (Diagnostics diag))) \<noteq> None
              \<longrightarrow> InterfaceDiagnostics.LaserOutputPowerDbm (diagnosticsRecord ParseFloat diag) = 0)
         \<and> (snd (ParseFloat (OpticsDiagnostics.RxSignalAvgOpticalPowerDbm (Diagnostics diag))) \<noteq> None
              \<longrightarrow> InterfaceDiagnostics.RxSignalAvgOpticalPowerDbm (diagnosticsRecord ParseFloat diag) = 0)
         \<and> (snd (ParseFloat (OpticsDiagnostics.LaserRxOpticalPowerDbm (Diagnostics diag))) \<noteq> None
              \<longrightarrow> InterfaceDiagnostics.LaserRxOpticalPowerDbm (diagnosticsRecord ParseFloat diag) = 0)"
proof (intro exI conjI impI)
  show "RpcClient_InterfaceDiagnostics ParseFloat c xmlUnmarshal
           = (Some (concat (map (diagnosticsRecords ParseFloat) (DiagInterfaces x))), None)"
    using assms(1) by (rule InterfaceDiagnostics_result)
  show "diagnosticsRecord ParseFloat diag
          \<in> set (concat (map (diagnosticsRecords ParseFloat) (DiagInterfaces x)))"
    using assms(2,3) by (auto simp: diagnosticsRecords_def)
  show "diagnosticsRecord ParseFloat diag =
             \<lparr>InterfaceDiagnostics.Name = PhyDiagInterface.Name diag,
              InterfaceDiagnostics.LaserBiasCurrent =
                OpticsDiagnostics.LaserBiasCurrent (Diagnostics diag),
              InterfaceDiagnostics.LaserOutputPower =
                OpticsDiagnostics.LaserOutputPower (Diagnostics diag),
              InterfaceDiagnostics.LaserOutputPowerDbm =
                (case ParseFloat (OpticsDiagnostics.LaserOutputPowerDbm (Diagnostics diag)) of
                   (f, None) \<Rightarrow> f | (f, Some e) \<Rightarrow> 0),
              InterfaceDiagnostics.ModuleTemperature =
                OpticsDiagnostics.ModuleTemperature (Diagnostics diag),
              InterfaceDiagnostics.ModuleVoltage =
                (if OpticsDiagnostics.ModuleVoltage (Diagnostics diag) > 0
                 then OpticsDiagnostics.ModuleVoltage (Diagnostics diag) else 0),
              InterfaceDiagnostics.RxSignalAvgOpticalPower =
                (if OpticsDiagnostics.ModuleVoltage (Diagnostics diag) > 0
                 then OpticsDiagnostics.RxSignalAvgOpticalPower (Diagnostics diag) else 0),
              InterfaceDiagnostics.RxSignalAvgOpticalPowerDbm =
                (if OpticsDiagnostics.ModuleVoltage (Diagnostics diag) > 0
                 then (case ParseFloat
                              (OpticsDiagnostics.RxSignalAvgOpticalPowerDbm (Diagnostics diag)) of
                         (f, None) \<Rightarrow> f | (f, Some e) \<Rightarrow> 0)
                 else 0),
              InterfaceDiagnostics.LaserRxOpticalPower =
                (if OpticsDiagnostics.ModuleVoltage (Diagnostics diag) > 0 then 0
                 else OpticsDiagnostics.LaserRxOpticalPower (Diagnostics diag)),
              InterfaceDiagnostics.LaserRxOpticalPowerDbm =
                (if OpticsDiagnostics.ModuleVoltage (Diagnostics diag) > 0 then 0
                 else (case ParseFloat
                              (OpticsDiagnostics.LaserRxOpticalPowerDbm (Diagnostics diag)) of
                         (f, None) \<Rightarrow> f | (f, Some e) \<Rightarrow> 0))\<rparr>"
    unfolding diagnosticsRecord_eq dbmOrZero_def by (rule refl)
qed (simp_all add: diagnosticsRecord_eq dbmOrZero_failed)

theorem dbm_parse_failure_is_silent_witness:
  "runCommandAndParse (clientOf echoConn) (replyWith \<lparr>DiagInterfaces = [voltDiag]\<rparr>)
      ''show interfaces diagnostics optics'' InterfaceDiagnosticsRpc_zero
     = (\<lparr>DiagInterfaces = [voltDiag]\<rparr>, None)
   \<and> voltDiag \<in> set (DiagInterfaces \<lparr>DiagInterfaces = [voltDiag]\<rparr>)
   \<and> NA (Diagnostics voltDiag) \<noteq> ''N/A''
   \<and> snd (exampleParseFloat (OpticsDiagnostics.LaserOutputPowerDbm (Diagnostics voltDiag)))
       = Some (NumError ''invalid syntax'')
   \<and> (\<exists>recs. RpcClient_InterfaceDiagnostics exampleParseFloat (clientOf echoConn)
                 (replyWith \<lparr>DiagInterfaces = [voltDiag]\<rparr>) = (Some recs, None)
          \<and> diagnosticsRecord exampleParseFloat voltDiag \<in> set recs)
   \<and> InterfaceDiagnostics.LaserOutputPowerDbm (diagnosticsRecord exampleParseFloat voltDiag) = 0
   \<and> diagnosticsRecord exampleParseFloat voltDiag =
       \<lparr>InterfaceDiagnostics.Name = ''xe-0/0/0'',
        InterfaceDiagnostics.LaserBiasCurrent = 6,
        InterfaceDiagnostics.LaserOutputPower = 0,
        InterfaceDiagnostics.LaserOutputPowerDbm = 0,
        InterfaceDiagnostics.ModuleTemperature = 35,
        InterfaceDiagnostics.ModuleVoltage = 3,
        InterfaceDiagnostics.RxSignalAvgOpticalPower = 1 / 2,
        InterfaceDiagnostics.RxSignalAvgOpticalPowerDbm = - 5 / 2,
        InterfaceDiagnostics.LaserRxOpticalPower = 0,
        InterfaceDiagnostics.LaserRxOpticalPowerDbm = 0\<rparr>
   \<and> RpcClient_InterfaceDiagnostics exampleParseFloat (clientOf echoConn)
        (replyWith \<lparr>DiagInterfaces = [voltDiag]\<rparr>)
       = (Some [\<lparr>InterfaceDiagnostics.Name = ''xe-0/0/0'',
                 InterfaceDiagnostics.LaserBiasCurrent = 6,
                 InterfaceDiagnostics.LaserOutputPower = 0,
                 InterfaceDiagnostics.LaserOutputPowerDbm = 0,
                 InterfaceDiagnostics.ModuleTemperature = 35,
                 InterfaceDiagnostics.ModuleVoltage = 3,
                 InterfaceDiagnostics.RxSignalAvgOpticalPower = 1 / 2,
                 InterfaceDiagnostics.RxSignalAvgOpticalPowerDbm = - 5 / 2,
                 InterfaceDiagnostics.LaserRxOpticalPower = 0,
                 InterfaceDiagnostics.LaserRxOpticalPowerDbm = 0\<rparr>], None)"
proof -
  let ?x = "\<lparr>DiagInterfaces = [voltDiag]\<rparr>"
  let ?rec = "\<lparr>InterfaceDiagnostics.Name = ''xe-0/0/0'',
        InterfaceDiagnostics.LaserBiasCurrent = 6,
        InterfaceDiagnostics.LaserOutputPower = 0,
        InterfaceDiagnostics.LaserOutputPowerDbm = 0,
        InterfaceDiagnostics.ModuleTemperature = 35,
        InterfaceDiagnostics.ModuleVoltage = 3,
        InterfaceDiagnostics.RxSignalAvgOpticalPower = 1 / 2,
        InterfaceDiagnostics.RxSignalAvgOpticalPowerDbm = - 5 / 2,
        InterfaceDiagnostics.LaserRxOpticalPower = 0,
        InterfaceDiagnostics.LaserRxOpticalPowerDbm = 0\<rparr>"
  have h: "runCommandAndParse (clientOf echoConn) (replyWith ?x)
      ''show interfaces diagnostics optics'' InterfaceDiagnosticsRpc_zero = (?x, None)"
    by (rule runCommandAndParse_echo)
  have m: "voltDiag \<in> set (DiagInterfaces ?x)" by simp
  have na: "NA (Diagnostics voltDiag) \<noteq> ''N/A''" by (simp add: voltDiag_def)
  have pf: "snd (exampleParseFloat (OpticsDiagnostics.LaserOutputPowerDbm (Diagnostics voltDiag)))
       = Some (NumError ''invalid syntax'')"
    by (simp add: voltDiag_def exampleParseFloat_def)
  note inst = dbm_parse_failure_is_silent[OF h m na, of exampleParseFloat]
  from inst pf
  have a: "(\<exists>recs. RpcClient_InterfaceDiagnostics exampleParseFloat (clientOf echoConn)
                 (replyWith ?x) = (Some recs, None)
          \<and> diagnosticsRecord exampleParseFloat voltDiag \<in> set recs)
     \<and> InterfaceDiagnostics.LaserOutputPowerDbm (diagnosticsRecord exampleParseFloat voltDiag) = 0"
    by auto
  from inst
  have eq: "diagnosticsRecord exampleParseFloat voltDiag =
             \<lparr>InterfaceDiagnostics.Name = PhyDiagInterface.Name voltDiag,
              InterfaceDiagnostics.LaserBiasCurrent =
                OpticsDiagnostics.LaserBiasCurrent (Diagnostics voltDiag),
              InterfaceDiagnostics.LaserOutputPower =
                OpticsDiagnostics.LaserOutputPower (Diagnostics voltDiag),
              InterfaceDiagnostics.LaserOutputPowerDbm =
                (case exampleParseFloat (OpticsDiagnostics.LaserOutputPowerDbm (Diagnostics voltDiag)) of
                   (f, None) \<Rightarrow> f | (f, Some e) \<Rightarrow> 0),
              InterfaceDiagnostics.ModuleTemperature =
                OpticsDiagnostics.ModuleTemperature (Diagnostics voltDiag),
              InterfaceDiagnostics.ModuleVoltage =
                (if OpticsDiagnostics.ModuleVoltage (Diagnostics voltDiag) > 0
                 then OpticsDiagnostics.ModuleVoltage (Diagnostics voltDiag) else 0),
              InterfaceDiagnostics.RxSignalAvgOpticalPower =
                (if OpticsDiagnostics.ModuleVoltage (Diagnostics voltDiag) > 0
                 then OpticsDiagnostics.RxSignalAvgOpticalPower (Diagnostics voltDiag) else 0),
              InterfaceDiagnostics.RxSignalAvgOpticalPowerDbm =
                (if OpticsDiagnostics.ModuleVoltage (Diagnostics voltDiag) > 0
                 then (case exampleParseFloat
                              (OpticsDiagnostics.RxSignalAvgOpticalPowerDbm (Diagnostics voltDiag)) of
                         (f, None) \<Rightarrow> f | (f, Some e) \<Rightarrow> 0)
                 else 0),
              InterfaceDiagnostics.LaserRxOpticalPower =
                (if OpticsDiagnostics.ModuleVoltage (Diagnostics voltDiag) > 0 then 0
                 else OpticsDiagnostics.LaserRxOpticalPower (Diagnostics voltDiag)),
              InterfaceDiagnostics.LaserRxOpticalPowerDbm =
                (if OpticsDiagnostics.ModuleVoltage (Diagnostics voltDiag) > 0 then 0
                 else (case exampleParseFloat
                              (OpticsDiagnostics.LaserRxOpticalPowerDbm (Diagnostics voltDiag)) of
                         (f, None) \<Rightarrow> f | (f, Some e) \<Rightarrow> 0))\<rparr>"
    by blast
  have rec: "diagnosticsRecord exampleParseFloat voltDiag = ?rec"
    unfolding eq by (simp add: voltDiag_def exampleParseFloat_def)
  have res: "RpcClient_InterfaceDiagnostics exampleParseFloat (clientOf echoConn) (replyWith ?x)
       = (Some [?rec], None)"
    unfolding InterfaceDiagnostics_result[OF h]
    by (simp add: diagnosticsRecords_def na rec)
  show ?thesis
    using h m na pf a rec res by blast
qed

section \<open>Environment items\<close>

lemma itemsLoop_map_of:
  "map_of (itemsLoop items m) = map_of m ++ map_of (rev (temperatureReadings items))"
proof (induction items arbitrary: m)
  case Nil
  then show ?case by simp
next
  case (Cons item rest)
  show ?case
  proof (cases "EnvironmentRpcItem.Temperature item")
    case None
    then show ?thesis by (simp add: Cons.IH)
  next
    case (Some v)
    show ?thesis
      by (rule ext) (simp add: Some Cons.IH map_add_def update_conv split: option.splits)
  qed
qed

lemma itemsLoop_distinct:
  "distinct (map fst m) \<Longrightarrow> distinct (map fst (itemsLoop items m))"
  by (induction items arbitrary: m) (auto simp: distinct_update split: option.splits)

lemma mapLoop_append: "mapLoop m items = items @ map environmentItem m"
  by (induction m items rule: mapLoop.induct) (simp_all add: environmentItem_def)

lemma temperatureReadings_append:
  "temperatureReadings (xs @ ys) = temperatureReadings xs @ temperatureReadings ys"
  by (induction xs) (auto split: option.splits)

lemma temperatureReadings_keys:
  "fst ` set (temperatureReadings items) =
     {EnvironmentRpcItem.Name i | i. i \<in> set items \<and> EnvironmentRpcItem.Temperature i \<noteq> None}"
  by (induction items) (auto split: option.splits)

lemma temperatureReadings_last:
  assumes "items = pre @ item # post" "EnvironmentRpcItem.Temperature item = Some t"
    and "\<forall>j \<in> set post. EnvironmentRpcItem.Name j = EnvironmentRpcItem.Name item
            \<longrightarrow> EnvironmentRpcItem.Temperature j = None"
  shows "map_of (rev (temperatureReadings items)) (EnvironmentRpcItem.Name item) = Some t"
proof -
  have "EnvironmentRpcItem.Name item \<notin> fst ` set (temperatureReadings post)"
    using assms(3) by (auto simp: temperatureReadings_keys)
  then have post: "map_of (rev (temperatureReadings post)) (EnvironmentRpcItem.Name item) = None"
    by (simp add: map_of_eq_None_iff)
  show ?thesis
    using assms(2) post
    by (simp add: assms(1) temperatureReadings_append map_add_def)
qed

lemma EnvironmentItems_result:
  "runCommandAndParse c xmlUnmarshal ''show chassis environment'' EnvironmentRpc_zero = (x, None)
   \<Longrightarrow> RpcClient_EnvironmentItems rangeOrder c xmlUnmarshal
      = (Some (map environmentItem (rangeOrder (itemsLoop (Items x) []))), None)"
  by (simp add: RpcClient_EnvironmentItems_def mapLoop_append)

lemma map_Name_environmentItem: "map EnvironmentItem.Name (map environmentItem m) = map fst m"
  by (simp add: environmentItem_def comp_def)

lemma environmentItem_mem:
  "(\<lparr>EnvironmentItem.Name = n, EnvironmentItem.Temperature = t\<rparr> \<in> set (map environmentItem m))
     = ((n, t) \<in> set m)"
  by (force simp: environmentItem_def image_iff)

lemma reordered_map:
  assumes "mset m' = mset m" "distinct (map fst m)"
  shows "distinct (map fst m')" "set m' = set m"
    "((n, t) \<in> set m') = (map_of m n = Some t)"
proof -
  have "mset (map fst m') = mset (map fst m)"
    using assms(1) by (metis mset_map)
  then show d: "distinct (map fst m')"
    using assms(2) by (metis mset_eq_imp_distinct_iff)
  show s: "set m' = set m"
    using assms(1) by (rule mset_eq_setD)
  show "((n, t) \<in> set m') = (map_of m n = Some t)"
    using assms(2) s by simp
qed


text \<open>
  C4. When the command runs and its reply decodes to the envelope \<open>x\<close>, then in
  whatever order the runtime ranges over the map, \<open>EnvironmentItems\<close> returns records
  and no error; the names of the records are pairwise distinct; they are the names of the
  items of \<open>x\<close> that have a temperature, so an item without one gives no record; a
  record with name \<open>n\<close> and temperature \<open>t\<close> is returned exactly when \<open>t\<close> is
  the temperature of the last item named \<open>n\<close> among those with a temperature; in
  particular, for an item with a temperature that no later item of the same name with a
  temperature follows, the record with its name and its temperature is returned.
\<close>

theorem environment_items_last_write_wins:
  assumes "runCommandAndParse c xmlUnmarshal ''show chassis environment'' EnvironmentRpc_zero
             = (x, None)"
    and "\<And>m. mset (rangeOrder m) = mset m"
  shows "\<exists>items. RpcClient_EnvironmentItems rangeOrder c xmlUnmarshal = (Some items, None)
         \<and> distinct (map EnvironmentItem.Name items)
         \<and> set (map EnvironmentItem.Name items)
             = {EnvironmentRpcItem.Name i | i.
                  i \<in> set (Items x) \<and> EnvironmentRpcItem.Temperature i \<noteq> None}
         \<and> (\<forall>n t. (\<lparr>EnvironmentItem.Name = n, EnvironmentItem.Temperature = t\<rparr> \<in> set items)
                = (map_of (rev (temperatureReadings (Items x))) n = Some t))
         \<and> (\<forall>pre item post t.
               Items x = pre @ item # post
               \<and> EnvironmentRpcItem.Temperature item = Some t
               \<and> (\<forall>j \<in> set post. EnvironmentRpcItem.Name j = EnvironmentRpcItem.Name item
                      \<longrightarrow> EnvironmentRpcItem.Temperature j = None)
               \<longrightarrow> \<lparr>EnvironmentItem.Name = EnvironmentRpcItem.Name item,
                     EnvironmentItem.Temperature = t\<rparr> \<in> set items)"
proof -
  let ?m = "itemsLoop (Items x) []"
  let ?items = "map environmentItem (rangeOrder ?m)"
  have dm: "distinct (map fst ?m)"
    by (rule itemsLoop_distinct) simp
  have mo: "map_of ?m = map_of (rev (temperatureReadings (Items x)))"
    by (simp add: itemsLoop_map_of)
  note ro = reordered_map[OF assms(2)[of ?m] dm]
  have res: "RpcClient_EnvironmentItems rangeOrder c xmlUnmarshal = (Some ?items, None)"
    using assms(1) by (rule EnvironmentItems_result)
  have d: "distinct (map EnvironmentItem.Name ?items)"
    using ro(1) by (simp only: map_Name_environmentItem)
  have mem: "\<And>n t. (\<lparr>EnvironmentItem.Name = n, EnvironmentItem.Temperature = t\<rparr> \<in> set ?items)
                = (map_of (rev (temperatureReadings (Items x))) n = Some t)"
    by (simp only: environmentItem_mem ro(3) mo)
  have "set (map fst (rangeOrder ?m)) = fst ` set ?m"
    using ro(2) by simp
  also have "\<dots> = dom (map_of ?m)"
    by (simp add: dom_map_of_conv_image_fst)
  also have "\<dots> = fst ` set (temperatureReadings (Items x))"
    by (simp add: mo dom_map_of_conv_image_fst)
  finally have names: "set (map EnvironmentItem.Name ?items)
             = {EnvironmentRpcItem.Name i | i.
                  i \<in> set (Items x) \<and> EnvironmentRpcItem.Temperature i \<noteq> None}"
    by (simp only: map_Name_environmentItem temperatureReadings_keys)
  have last: "\<And>pre item post t.
               Items x = pre @ item # post
               \<and> EnvironmentRpcItem.Temperature item = Some t
               \<and> (\<forall>j \<in> set post. EnvironmentRpcItem.Name j = EnvironmentRpcItem.Name item
                      \<longrightarrow> EnvironmentRpcItem.Temperature j = None)
               \<Longrightarrow> \<lparr>EnvironmentItem.Name = EnvironmentRpcItem.Name item,
                     EnvironmentItem.Temperature = t\<rparr> \<in> set ?items"
    using temperatureReadings_last mem by blast
  show ?thesis
    using res d names mem last by blast
qed

theorem environment_items_last_write_wins_witness:
  "runCommandAndParse (clientOf echoConn) (replyWith exampleEnvironment)
      ''show chassis environment'' EnvironmentRpc_zero = (exampleEnvironment, None)
   \<and> (\<forall>m :: (string \<times> float64) list. mset (rev m) = mset m)
   \<and> RpcClient_EnvironmentItems rev (clientOf echoConn) (replyWith exampleEnvironment)
       = (Some [\<lparr>EnvironmentItem.Name = ''CPU'', EnvironmentItem.Temperature = 50\<rparr>,
                \<lparr>EnvironmentItem.Name = ''PSU 0'', EnvironmentItem.Temperature = 45\<rparr>], None)
   \<and> Items exampleEnvironment
       = [envItem ''PSU 0'' (Some 30), envItem ''Fan 1'' None] @ envItem ''PSU 0'' (Some 45)
           # [envItem ''CPU'' (Some 50)]
   \<and> (\<exists>items. RpcClient_EnvironmentItems rev (clientOf echoConn) (replyWith exampleEnvironment)
                 = (Some items, None)
         \<and> distinct (map EnvironmentItem.Name items)
         \<and> \<lparr>EnvironmentItem.Name = ''PSU 0'', EnvironmentItem.Temperature = 45\<rparr> \<in> set items)"
proof -
  have h: "runCommandAndParse (clientOf echoConn) (replyWith exampleEnvironment)
      ''show chassis environment'' EnvironmentRpc_zero = (exampleEnvironment, None)"
    by (rule runCommandAndParse_echo)
  have p: "\<And>m :: (string \<times> float64) list. mset (rev m) = mset m"
    by simp
  have split: "Items exampleEnvironment
       = [envItem ''PSU 0'' (Some 30), envItem ''Fan 1'' None] @ envItem ''PSU 0'' (Some 45)
           # [envItem ''CPU'' (Some 50)]"
    by (simp add: exampleEnvironment_def)
  have post: "EnvironmentRpcItem.Temperature (envItem ''PSU 0'' (Some 45)) = Some 45
       \<and> (\<forall>j \<in> set [envItem ''CPU'' (Some 50)].
             EnvironmentRpcItem.Name j = EnvironmentRpcItem.Name (envItem ''PSU 0'' (Some 45))
               \<longrightarrow> EnvironmentRpcItem.Temperature j = None)"
    by (simp add: envItem_def)
  from environment_items_last_write_wins[OF h p]
  obtain items where r: "RpcClient_EnvironmentItems rev (clientOf echoConn)
        (replyWith exampleEnvironment) = (Some items, None)"
    and d: "distinct (map EnvironmentItem.Name items)"
    and l: "\<forall>pre item post t.
               Items exampleEnvironment = pre @ item # post
               \<and> EnvironmentRpcItem.Temperature item = Some t
               \<and> (\<forall>j \<in> set post. EnvironmentRpcItem.Name j = EnvironmentRpcItem.Name item
                      \<longrightarrow> EnvironmentRpcItem.Temperature j = None)
               \<longrightarrow> \<lparr>EnvironmentItem.Name = EnvironmentRpcItem.Name item,
                     EnvironmentItem.Temperature = t\<rparr> \<in> set items"
    by blast
  from l split post
  have "\<lparr>EnvironmentItem.Name = EnvironmentRpcItem.Name (envItem ''PSU 0'' (Some 45)),
          EnvironmentItem.Temperature = 45\<rparr> \<in> set items"
    by blast
  then have m: "\<lparr>EnvironmentItem.Name = ''PSU 0'', EnvironmentItem.Temperature = 45\<rparr> \<in> set items"
    by (simp add: envItem_def)
  have v: "RpcClient_EnvironmentItems rev (clientOf echoConn) (replyWith exampleEnvironment)
       = (Some [\<lparr>EnvironmentItem.Name = ''CPU'', EnvironmentItem.Temperature = 50\<rparr>,
                \<lparr>EnvironmentItem.Name = ''PSU 0'', EnvironmentItem.Temperature = 45\<rparr>], None)"
    unfolding EnvironmentItems_result[OF h]
    by (simp add: exampleEnvironment_def envItem_def environmentItem_def)
  show ?thesis
    using h p v split r d m by blast
qed

end
